theory Spec2Isabelle
  imports Main
begin

section \<open>Data model of the migration scripts\<close>

text \<open>
  The scripts under \<^verbatim>\<open>scripts/\<close> move media files from Cloudinary to Cloudflare R2
  (\<^verbatim>\<open>migrate-to-r2.js\<close>), with helpers for the database, the uploader and the
  backups. JavaScript exceptions are values of a sum type: \<open>Inl msg\<close> is a thrown
  \<^verbatim>\<open>Error\<close> with message \<open>msg\<close>, \<open>Inr v\<close> a normal return. Every call to the outside
  world (HTTP, S3, the database) takes its answer from an explicit record of responses and
  is written to a trace, so that what the code asked for, and in which order, is part of
  the result.
\<close>

type_synonym buffer = "nat list"

text \<open>A row of the \<^verbatim>\<open>files\<close> table, with the columns the migration reads.\<close>

record media_file =
  file_id :: nat
  name :: string
  hash :: string
  ext :: string
  mime :: string
  url :: string
  file_size :: nat

text \<open>
  The object \<^verbatim>\<open>migrateFile\<close> returns: \<^verbatim>\<open>{status: 'success', original_url, new_url, file_size}\<close>,
  \<^verbatim>\<open>{status: 'failed', error, retry_count}\<close> or \<^verbatim>\<open>{status: 'skipped', reason}\<close>. The entry
  that the \<^verbatim>\<open>catch\<close> of \<^verbatim>\<open>main\<close> pushes has status \<^verbatim>\<open>'failed'\<close> and no
  \<^verbatim>\<open>retry_count\<close>, hence the option. Durations and stack traces are left out.
\<close>

datatype result =
  Success string string nat
| Failed string "nat option"
| Skipped string

record entry =
  entry_id :: nat
  entry_original_url :: "string option"
  entry_result :: result
  timestamp :: string

datatype run_status = in_progress | completed | completed_with_errors

record statistics =
  total_files :: nat
  processed :: nat
  success :: nat
  failed :: nat
  skipped :: nat

record state =
  migration_id :: string
  start_time :: string
  end_time :: "string option"
  status :: run_status
  stats :: statistics
  processed_files :: "entry list"
  failed_files :: "entry list"
  skipped_files :: "entry list"

text \<open>Every effect on the outside world, in the order the code performs it.\<close>

datatype action =
  BeginTransaction
| Commit
| Rollback
| DbClose
| AxiosHead string nat
| AxiosGet string nat nat
| Sleep nat
| HeadObject string string
| PutObject string string buffer string
| MultipartUpload string string buffer string nat nat
| UpdateFileToR2 nat string
| SaveState state

text \<open>
  The answer of \<^verbatim>\<open>axios.head\<close>: it resolves, or it rejects with an error whose
  \<^verbatim>\<open>response.status\<close> is present (an HTTP status) or absent (timeout, network error).
\<close>

datatype head_response = HeadResolved | HeadRejected "nat option" string

text \<open>
  The answer of the S3 \<^verbatim>\<open>HeadObjectCommand\<close>: it resolves, or it rejects with an error
  carrying a name, an optional \<^verbatim>\<open>$metadata.httpStatusCode\<close> and a message.
\<close>

datatype s3_head = S3Found | S3Error string "nat option" string

text \<open>What the outside world answers while one record is processed.\<close>

record io =
  begin_res :: "string + unit"
  head_res :: head_response
  head_object_res :: s3_head
  get_res :: "nat \<Rightarrow> string + buffer"
  send_res :: "string + unit"
  update_res :: "string + unit"
  commit_res :: "string + unit"
  rollback_res :: "string + unit"
  clock :: string

section \<open>The R2 uploader (\<^verbatim>\<open>utils/r2-uploader.js\<close>)\<close>

record uploader =
  bucket :: "string option"
  endpoint :: "string option"
  publicUrl :: "string option"

record env_vars =
  AWS_BUCKET :: "string option"
  AWS_ENDPOINT :: "string option"
  R2_PUBLIC_URL :: "string option"

text \<open>\<^verbatim>\<open>R2Uploader.fromEnv\<close> only copies the variables; it checks nothing.\<close>

definition fromEnv :: "env_vars \<Rightarrow> uploader" where
  "fromEnv e = \<lparr> bucket = AWS_BUCKET e, endpoint = AWS_ENDPOINT e, publicUrl = R2_PUBLIC_URL e \<rparr>"

text \<open>A template literal prints an undefined value as \<^verbatim>\<open>undefined\<close>.\<close>

definition js_str :: "string option \<Rightarrow> string" where
  "js_str v = (case v of None \<Rightarrow> ''undefined'' | Some s \<Rightarrow> s)"

definition startsWith :: "string \<Rightarrow> string \<Rightarrow> bool" where
  "startsWith s p = (take (length p) s = p)"

text \<open>
  The regular expression \<^verbatim>\<open>/https:\/\/([^.]+)\.r2\.cloudflarestorage\.com/\<close> tried at the
  start of a string: the greedy \<^verbatim>\<open>[^.]+\<close> must stop at the first dot, since a dot has to
  follow it. \<open>accountIdSearch\<close> tries every start position from the left, as an unanchored
  \<^verbatim>\<open>match\<close> does.
\<close>

definition accountIdAt :: "string \<Rightarrow> string option" where
  "accountIdAt s =
     (if startsWith s ''https://'' then
        (let r = drop 8 s; a = takeWhile (\<lambda>c. c \<noteq> CHR ''.'') r; rest = dropWhile (\<lambda>c. c \<noteq> CHR ''.'') r
         in if a \<noteq> [] \<and> startsWith rest ''.r2.cloudflarestorage.com'' then Some a else None)
      else None)"

fun accountIdSearch :: "string \<Rightarrow> string option" where
  "accountIdSearch [] = accountIdAt []"
| "accountIdSearch (c # cs) =
     (case accountIdAt (c # cs) of Some a \<Rightarrow> Some a | None \<Rightarrow> accountIdSearch cs)"

definition extractAccountId :: "uploader \<Rightarrow> string + string" where
  "extractAccountId u =
     (case endpoint u of
        None \<Rightarrow> Inl ''Cannot read properties of undefined (reading 'match')''
      | Some e \<Rightarrow>
          (case accountIdSearch e of
             Some a \<Rightarrow> Inr a
           | None \<Rightarrow> Inl ''Invalid R2 endpoint format''))"

text \<open>\<^verbatim>\<open>if (this.publicUrl)\<close> holds for a defined, non-empty string.\<close>

definition getPublicUrl :: "uploader \<Rightarrow> string \<Rightarrow> string + string" where
  "getPublicUrl u key =
     (case publicUrl u of
        Some p \<Rightarrow>
          (if p \<noteq> [] then Inr (p @ ''/'' @ key)
           else (case extractAccountId u of
                   Inl e \<Rightarrow> Inl e
                 | Inr a \<Rightarrow> Inr (''https://'' @ js_str (bucket u) @ ''.'' @ a @ ''.r2.cloudflarestorage.com/'' @ key)))
      | None \<Rightarrow>
          (case extractAccountId u of
             Inl e \<Rightarrow> Inl e
           | Inr a \<Rightarrow> Inr (''https://'' @ js_str (bucket u) @ ''.'' @ a @ ''.r2.cloudflarestorage.com/'' @ key)))"

definition multipartUpload :: "uploader \<Rightarrow> io \<Rightarrow> buffer \<Rightarrow> string \<Rightarrow> string \<Rightarrow> action list \<times> (string + string)" where
  "multipartUpload u w buf key contentType =
     ([MultipartUpload (js_str (bucket u)) key buf contentType (5 * 1024 * 1024) 4],
      (case send_res w of
         Inl e \<Rightarrow> Inl (''Failed multipart upload to R2: '' @ e)
       | Inr _ \<Rightarrow>
          (case getPublicUrl u key of
             Inl e \<Rightarrow> Inl (''Failed multipart upload to R2: '' @ e)
           | Inr p \<Rightarrow> Inr p)))"

definition upload :: "uploader \<Rightarrow> io \<Rightarrow> buffer \<Rightarrow> string \<Rightarrow> string \<Rightarrow> action list \<times> (string + string)" where
  "upload u w buf key contentType =
     (if length buf > 5 * 1024 * 1024 then
        (case multipartUpload u w buf key contentType of
           (t, Inl e) \<Rightarrow> (t, Inl (''Failed to upload to R2: '' @ e))
         | (t, Inr p) \<Rightarrow> (t, Inr p))
      else
        ([PutObject (js_str (bucket u)) key buf contentType],
         (case send_res w of
            Inl e \<Rightarrow> Inl (''Failed to upload to R2: '' @ e)
          | Inr _ \<Rightarrow>
             (case getPublicUrl u key of
                Inl e \<Rightarrow> Inl (''Failed to upload to R2: '' @ e)
              | Inr p \<Rightarrow> Inr p))))"

text \<open>\<^verbatim>\<open>fileExists\<close>: a not-found answer is \<^verbatim>\<open>false\<close>, every other error is thrown again.\<close>

definition fileExists :: "uploader \<Rightarrow> string \<Rightarrow> io \<Rightarrow> action list \<times> (string + bool)" where
  "fileExists u key w =
     ([HeadObject (js_str (bucket u)) key],
      (case head_object_res w of
         S3Found \<Rightarrow> Inr True
       | S3Error nm code msg \<Rightarrow>
           (if nm = ''NotFound'' \<or> code = Some 404 then Inr False else Inl msg)))"

section \<open>Downloading with retries (\<^verbatim>\<open>downloadFromCloudinary\<close>)\<close>

definition digit_char :: "nat \<Rightarrow> char" where
  "digit_char n = ''0123456789'' ! n"

fun string_of_nat :: "nat \<Rightarrow> string" where
  "string_of_nat n =
     (if n < 10 then [digit_char n] else string_of_nat (n div 10) @ [digit_char (n mod 10)])"

declare string_of_nat.simps [simp del]

text \<open>
  The \<^verbatim>\<open>for\<close> loop from attempt \<open>i\<close> on. \<open>g k\<close> is what the \<open>k\<close>-th \<^verbatim>\<open>axios.get\<close>
  answers. Every request carries the 60 s timeout and the 100 MB limit. When the loop
  ends without a \<^verbatim>\<open>return\<close> (only for \<open>retries = 0\<close>) the function returns
  \<^verbatim>\<open>undefined\<close>, here \<open>None\<close>.
\<close>

function downloadLoop :: "string \<Rightarrow> nat \<Rightarrow> (nat \<Rightarrow> string + buffer) \<Rightarrow> nat \<Rightarrow> action list \<times> (string + buffer option)" where
  "downloadLoop u retries g i =
     (if i < retries then
        (case g i of
           Inr b \<Rightarrow> ([AxiosGet u 60000 (100 * 1024 * 1024)], Inr (Some b))
         | Inl e \<Rightarrow>
            (if i = retries - 1 then
               ([AxiosGet u 60000 (100 * 1024 * 1024)],
                Inl (''Download failed after '' @ string_of_nat retries @ '' retries: '' @ e))
             else
               (case downloadLoop u retries g (i + 1) of
                  (t, r) \<Rightarrow> (AxiosGet u 60000 (100 * 1024 * 1024) # Sleep (1000 * (i + 1)) # t, r))))
      else ([], Inr None))"
  by pat_completeness auto
termination
  by (relation "measure (\<lambda>(u, retries, g, i). retries - i)") auto

declare downloadLoop.simps [simp del]

definition downloadFromCloudinary :: "string \<Rightarrow> nat \<Rightarrow> (nat \<Rightarrow> string + buffer) \<Rightarrow> action list \<times> (string + buffer option)" where
  "downloadFromCloudinary u retries g = downloadLoop u retries g 0"

section \<open>Migrating one file (\<^verbatim>\<open>migrateFile\<close>)\<close>

definition is404 :: "head_response \<Rightarrow> bool" where
  "is404 h = (case h of HeadResolved \<Rightarrow> False | HeadRejected st msg \<Rightarrow> st = Some 404)"

text \<open>
  The branch that computes \<^verbatim>\<open>r2Url\<close>. An undefined buffer (no attempt was made) makes
  \<^verbatim>\<open>buffer.length\<close> throw inside \<^verbatim>\<open>upload\<close>, which wraps the message.
\<close>

definition transfer :: "media_file \<Rightarrow> uploader \<Rightarrow> io \<Rightarrow> bool \<Rightarrow> string \<Rightarrow> bool \<Rightarrow> action list \<times> (string + string)" where
  "transfer f u w dryRun key exists =
     (if \<not> dryRun \<and> \<not> exists then
        (case downloadFromCloudinary (url f) 3 (get_res w) of
           (t, Inl e) \<Rightarrow> (t, Inl e)
         | (t, Inr None) \<Rightarrow>
             (t, Inl ''Failed to upload to R2: Cannot read properties of undefined (reading 'length')'')
         | (t, Inr (Some buf)) \<Rightarrow>
             (case upload u w buf key (mime f) of (t', r) \<Rightarrow> (t @ t', r)))
      else if exists then ([], getPublicUrl u key)
      else ([], (case getPublicUrl u key of Inl e \<Rightarrow> Inl e | Inr p \<Rightarrow> Inr (''[DRY-RUN] '' @ p))))"

definition migrateFile :: "media_file \<Rightarrow> uploader \<Rightarrow> io \<Rightarrow> bool \<Rightarrow> action list \<times> result" where
  "migrateFile f u w dryRun =
     (if is404 (head_res w) then
        ([AxiosHead (url f) 10000], Skipped ''File not found on Cloudinary (404)'')
      else
        (let key = hash f @ ext f in
         case fileExists u key w of
           (t1, Inl e) \<Rightarrow> (AxiosHead (url f) 10000 # t1, Failed e (Some 3))
         | (t1, Inr exists) \<Rightarrow>
            (case transfer f u w dryRun key exists of
               (t2, Inl e) \<Rightarrow> (AxiosHead (url f) 10000 # t1 @ t2, Failed e (Some 3))
             | (t2, Inr r2Url) \<Rightarrow>
                (if \<not> dryRun then
                   (case update_res w of
                      Inl e \<Rightarrow>
                        (AxiosHead (url f) 10000 # t1 @ t2 @ [UpdateFileToR2 (file_id f) r2Url],
                         Failed e (Some 3))
                    | Inr _ \<Rightarrow>
                        (AxiosHead (url f) 10000 # t1 @ t2 @ [UpdateFileToR2 (file_id f) r2Url],
                         Success (url f) r2Url (file_size f)))
                 else
                   (AxiosHead (url f) 10000 # t1 @ t2, Success (url f) r2Url (file_size f))))))"

section \<open>The run (\<^verbatim>\<open>main\<close> of \<^verbatim>\<open>migrate-to-r2.js\<close>)\<close>

text \<open>\<^verbatim>\<open>replace(/[:.]/g, '-')\<close> on the ISO text of a time.\<close>

definition dashed :: "string \<Rightarrow> string" where
  "dashed isoTime = map (\<lambda>c. if c = CHR '':'' \<or> c = CHR ''.'' then CHR ''-'' else c) isoTime"

text \<open>
  \<^verbatim>\<open>loadState\<close>: the parsed state file when it exists, a fresh state otherwise. The file
  is a value of type \<open>state option\<close>; writing and parsing JSON is taken as the identity.
  The clock is a parameter: \<open>now\<close> is the ISO text of the time of the call.
\<close>

definition loadState :: "state option \<Rightarrow> string \<Rightarrow> state" where
  "loadState stateFile now =
     (case stateFile of
        Some s \<Rightarrow> s
      | None \<Rightarrow>
          \<lparr> migration_id = ''migration-'' @ takeWhile (\<lambda>c. c \<noteq> CHR ''.'') (dashed now),
            start_time = now, end_time = None,
            status = in_progress,
            stats = \<lparr> total_files = 0, processed = 0, success = 0, failed = 0, skipped = 0 \<rparr>,
            processed_files = [], failed_files = [], skipped_files = [] \<rparr>)"

text \<open>
  How the callback given to \<^verbatim>\<open>limit\<close> ends for one file: \<^verbatim>\<open>migrateFile\<close> returned a
  result and the \<^verbatim>\<open>try\<close> block went on to record it; or \<^verbatim>\<open>beginTransaction\<close> or
  \<^verbatim>\<open>commit\<close> threw and the \<^verbatim>\<open>catch\<close> block recorded the error; or \<^verbatim>\<open>rollback\<close>
  threw inside the \<^verbatim>\<open>catch\<close> block, which rejects the promise.
\<close>

datatype task_end = Returned result | Caught string | Unhandled string

definition onCatch :: "io \<Rightarrow> bool \<Rightarrow> string \<Rightarrow> action list \<times> task_end" where
  "onCatch w dryRun e =
     (if \<not> dryRun then
        ([Rollback], (case rollback_res w of Inl e' \<Rightarrow> Unhandled e' | Inr _ \<Rightarrow> Caught e))
      else ([], Caught e))"

definition task :: "media_file \<Rightarrow> uploader \<Rightarrow> io \<Rightarrow> bool \<Rightarrow> action list \<times> task_end" where
  "task f u w dryRun =
     (if \<not> dryRun then
        (case begin_res w of
           Inl e \<Rightarrow> (case onCatch w dryRun e of (t, r) \<Rightarrow> (BeginTransaction # t, r))
         | Inr _ \<Rightarrow>
            (case migrateFile f u w dryRun of
               (t1, res) \<Rightarrow>
                 (case commit_res w of
                    Inl e \<Rightarrow>
                      (case onCatch w dryRun e of
                         (t, r) \<Rightarrow> (BeginTransaction # t1 @ Commit # t, r))
                  | Inr _ \<Rightarrow> (BeginTransaction # t1 @ [Commit], Returned res))))
      else
        (case migrateFile f u w dryRun of (t1, res) \<Rightarrow> (t1, Returned res)))"

text \<open>
  The update of the state after one file (lines 217 to 244 and 257 to 267): one counter
  goes up, one entry is pushed, and \<^verbatim>\<open>statistics.processed\<close> is overwritten with the
  local counter \<^verbatim>\<open>processed\<close>, which the caller has already increased.
\<close>

definition recordOutcome :: "media_file \<Rightarrow> io \<Rightarrow> task_end \<Rightarrow> nat \<Rightarrow> state \<Rightarrow> state" where
  "recordOutcome f w out n st =
     (let st' =
        (case out of
           Returned (Success orig new sz) \<Rightarrow>
             st\<lparr> stats := (stats st)\<lparr> success := success (stats st) + 1 \<rparr>,
                 processed_files := processed_files st @
                   [\<lparr> entry_id = file_id f, entry_original_url = Some orig,
                      entry_result = Success orig new sz, timestamp = clock w \<rparr>] \<rparr>
         | Returned (Failed e rc) \<Rightarrow>
             st\<lparr> stats := (stats st)\<lparr> failed := failed (stats st) + 1 \<rparr>,
                 failed_files := failed_files st @
                   [\<lparr> entry_id = file_id f, entry_original_url = Some (url f),
                      entry_result = Failed e rc, timestamp = clock w \<rparr>] \<rparr>
         | Returned (Skipped r) \<Rightarrow>
             st\<lparr> stats := (stats st)\<lparr> skipped := skipped (stats st) + 1 \<rparr>,
                 skipped_files := skipped_files st @
                   [\<lparr> entry_id = file_id f, entry_original_url = Some (url f),
                      entry_result = Skipped r, timestamp = clock w \<rparr>] \<rparr>
         | Caught e \<Rightarrow>
             st\<lparr> stats := (stats st)\<lparr> failed := failed (stats st) + 1 \<rparr>,
                 failed_files := failed_files st @
                   [\<lparr> entry_id = file_id f, entry_original_url = Some (url f),
                      entry_result = Failed e None, timestamp = clock w \<rparr>] \<rparr>
         | Unhandled e \<Rightarrow> st)
      in st'\<lparr> stats := (stats st')\<lparr> processed := n \<rparr> \<rparr>)"

text \<open>
  The callbacks run under \<^verbatim>\<open>pLimit(3)\<close>. The block that updates and saves the state
  contains no \<^verbatim>\<open>await\<close>, so these blocks run one after the other, in the order in which
  the files finish. \<open>runTasks\<close> takes the files in the order of its list; a run in which
  they finish in another order is the run on the reordered list, and nothing below
  depends on the order. \<open>n\<close> is the local counter \<^verbatim>\<open>processed\<close>. What the database
  answers for each file (also when another callback has its transaction open on the
  shared connection) is in \<open>answers\<close>. A promise rejected by a throwing \<^verbatim>\<open>rollback\<close>
  makes \<^verbatim>\<open>Promise.all\<close> reject and \<^verbatim>\<open>main\<close> exit; the run stops there and the third
  component holds the error.
\<close>

fun runTasks :: "bool \<Rightarrow> uploader \<Rightarrow> (media_file \<Rightarrow> io) \<Rightarrow> media_file list \<Rightarrow> nat \<Rightarrow> state
    \<Rightarrow> action list \<times> state \<times> string option \<times> (nat \<times> task_end) list" where
  "runTasks dryRun u answers [] n st = ([], st, None, [])"
| "runTasks dryRun u answers (f # fs) n st =
     (case task f u (answers f) dryRun of
        (t, Unhandled e) \<Rightarrow> (t, st, Some e, [])
      | (t, out) \<Rightarrow>
          (let st' = recordOutcome f (answers f) out (n + 1) st in
           case runTasks dryRun u answers fs (n + 1) st' of
             (t', st'', err, outs) \<Rightarrow>
               (t @ SaveState st' # t', st'', err, (file_id f, out) # outs)))"

record main_input =
  dryRun :: bool
  env :: env_vars
  db_init_res :: "string + unit"
  cloudinary_files :: "media_file list"
  answers :: "media_file \<Rightarrow> io"
  state_file :: "state option"
  now_start :: string
  now_end :: string

record main_output =
  exit_code :: nat
  trace :: "action list"
  outcomes :: "(nat \<times> task_end) list"
  final_state :: "state option"

text \<open>The files still to do: those whose id is not among \<^verbatim>\<open>processed_files\<close>.\<close>

definition outstanding :: "state \<Rightarrow> media_file list \<Rightarrow> media_file list" where
  "outstanding st allFiles =
     filter (\<lambda>f. file_id f \<notin> set (map entry_id (processed_files st))) allFiles"

text \<open>
  \<^verbatim>\<open>main\<close>. \<open>db_init_res\<close> is the outcome of opening the database and of the query
  for the Cloudinary files, \<open>cloudinary_files\<close> the rows of that query; when either
  throws, nothing has been done yet and \<^verbatim>\<open>main\<close> exits with 1. \<open>final_state\<close> is the
  state object in memory when \<^verbatim>\<open>main\<close> ends; what is on disk is read off the trace by
  \<open>persisted\<close>. A normal return is exit code 0, \<^verbatim>\<open>process.exit(1)\<close> is 1.
\<close>

definition main :: "main_input \<Rightarrow> main_output" where
  "main inp =
     (case db_init_res inp of
        Inl e \<Rightarrow> \<lparr> exit_code = 1, trace = [], outcomes = [], final_state = None \<rparr>
      | Inr _ \<Rightarrow>
         (let uploader = fromEnv (env inp);
              st0 = loadState (state_file inp) (now_start inp);
              allFiles = cloudinary_files inp;
              files = outstanding st0 allFiles;
              st1 = st0\<lparr> stats := (stats st0)\<lparr> total_files := length allFiles \<rparr> \<rparr>
          in if length files = 0 then
               \<lparr> exit_code = 0, trace = [DbClose], outcomes = [], final_state = Some st1 \<rparr>
             else
               (case runTasks (dryRun inp) uploader (answers inp) files 0 st1 of
                  (t, st2, Some e, outs) \<Rightarrow>
                    \<lparr> exit_code = 1, trace = t, outcomes = outs, final_state = Some st2 \<rparr>
                | (t, st2, None, outs) \<Rightarrow>
                    (let st3 = st2\<lparr> end_time := Some (now_end inp),
                                     status := (if failed (stats st2) > 0
                                                then completed_with_errors else completed) \<rparr>
                     in \<lparr> exit_code = 0, trace = t @ [SaveState st3, DbClose],
                          outcomes = outs, final_state = Some st3 \<rparr>))))"

text \<open>The content of the state file after a trace: the last state saved, if any.\<close>

fun persisted :: "state option \<Rightarrow> action list \<Rightarrow> state option" where
  "persisted file [] = file"
| "persisted file (SaveState s # t) = persisted (Some s) t"
| "persisted file (a # t) = persisted file t"

section \<open>Backups (\<^verbatim>\<open>utils/backup-helper.js\<close>)\<close>

text \<open>
  \<^verbatim>\<open>getTimestamp\<close> rewrites the ISO time of the clock: colons and dots become dashes,
  the \<^verbatim>\<open>T\<close> becomes a dash, and the text is cut at the first dot (there is none left).
  \<^verbatim>\<open>2025-12-23T10:00:00.123Z\<close> becomes \<^verbatim>\<open>2025-12-23-10-00-00-123Z\<close>. Every artifact
  calls it anew.
\<close>

definition getTimestamp :: "string \<Rightarrow> string" where
  "getTimestamp isoTime =
     takeWhile (\<lambda>c. c \<noteq> CHR ''.'')
       (map (\<lambda>c. if c = CHR ''T'' then CHR ''-'' else c) (dashed isoTime))"

text \<open>The file names of the artifacts, as the template literals build them.\<close>

definition sqliteBackupName :: "string \<Rightarrow> string" where
  "sqliteBackupName isoTime = ''data.db.backup-'' @ getTimestamp isoTime"

definition postgresBackupName :: "string \<Rightarrow> string" where
  "postgresBackupName isoTime = ''backup-'' @ getTimestamp isoTime @ ''.sql''"

definition jsonBackupName :: "string \<Rightarrow> string" where
  "jsonBackupName isoTime = ''cloudinary-backup-'' @ getTimestamp isoTime @ ''.json''"

definition csvBackupName :: "string \<Rightarrow> string" where
  "csvBackupName isoTime = ''migration-mapping-'' @ getTimestamp isoTime @ ''.csv''"

definition reportName :: "string \<Rightarrow> string" where
  "reportName isoTime = ''backup-report-'' @ getTimestamp isoTime @ ''.txt''"

text \<open>
  The regular expression \<^verbatim>\<open>/backup-(\d{4}-\d{2}-\d{2}-\d{2}-\d{2}-\d{2})/\<close>. In the
  template \<^verbatim>\<open>d\<close> stands for a digit and a dash for itself.
\<close>

definition isDigit :: "char \<Rightarrow> bool" where
  "isDigit c = (c \<in> set ''0123456789'')"

fun matchTemplate :: "string \<Rightarrow> string \<Rightarrow> bool" where
  "matchTemplate [] s = True"
| "matchTemplate (p # ps) [] = False"
| "matchTemplate (p # ps) (c # cs) =
     ((if p = CHR ''d'' then isDigit c else c = p) \<and> matchTemplate ps cs)"

definition timestampAt :: "string \<Rightarrow> string option" where
  "timestampAt s =
     (if startsWith s ''backup-'' \<and> matchTemplate ''dddd-dd-dd-dd-dd-dd'' (drop 7 s)
      then Some (take 19 (drop 7 s)) else None)"

fun timestampSearch :: "string \<Rightarrow> string option" where
  "timestampSearch [] = timestampAt []"
| "timestampSearch (c # cs) =
     (case timestampAt (c # cs) of Some t \<Rightarrow> Some t | None \<Rightarrow> timestampSearch cs)"

text \<open>
  The \<^verbatim>\<open>Map\<close> from timestamp to group keeps the order of insertion, so it is an
  association list; \<open>addToGroup\<close> is \<^verbatim>\<open>has\<close>, \<^verbatim>\<open>set\<close> and \<^verbatim>\<open>push\<close> together.
\<close>

record backup_set =
  backup_timestamp :: string
  backup_files :: "string list"

fun addToGroup :: "string \<Rightarrow> string \<Rightarrow> backup_set list \<Rightarrow> backup_set list" where
  "addToGroup ts f [] = [\<lparr> backup_timestamp = ts, backup_files = [f] \<rparr>]"
| "addToGroup ts f (b # bs) =
     (if backup_timestamp b = ts then b\<lparr> backup_files := backup_files b @ [f] \<rparr> # bs
      else b # addToGroup ts f bs)"

definition groupBackups :: "string list \<Rightarrow> backup_set list" where
  "groupBackups files =
     foldl (\<lambda>m f. case timestampSearch f of Some ts \<Rightarrow> addToGroup ts f m | None \<Rightarrow> m) [] files"

text \<open>
  \<^verbatim>\<open>Array.prototype.sort\<close> is stable, and a comparator result that is not a number
  counts as zero. The comparator is \<^verbatim>\<open>new Date(b.timestamp) - new Date(a.timestamp)\<close>; how
  \<^verbatim>\<open>Date\<close> reads a text that is not in ISO format is left to the engine, so it is the
  parameter \<open>dateOf\<close> (\<open>None\<close> for an invalid date).
\<close>

definition compareBackups :: "(string \<Rightarrow> int option) \<Rightarrow> backup_set \<Rightarrow> backup_set \<Rightarrow> int option" where
  "compareBackups dateOf a b =
     (case (dateOf (backup_timestamp b), dateOf (backup_timestamp a)) of
        (Some x, Some y) \<Rightarrow> Some (x - y)
      | _ \<Rightarrow> None)"

fun insertSorted :: "('a \<Rightarrow> 'a \<Rightarrow> int option) \<Rightarrow> 'a \<Rightarrow> 'a list \<Rightarrow> 'a list" where
  "insertSorted cmp x [] = [x]"
| "insertSorted cmp x (y # ys) =
     (case cmp y x of
        Some d \<Rightarrow> (if d > 0 then x # y # ys else y # insertSorted cmp x ys)
      | None \<Rightarrow> y # insertSorted cmp x ys)"

definition sortWith :: "('a \<Rightarrow> 'a \<Rightarrow> int option) \<Rightarrow> 'a list \<Rightarrow> 'a list" where
  "sortWith cmp xs = foldl (\<lambda>acc x. insertSorted cmp x acc) [] xs"

text \<open>\<open>dir\<close> is the listing of the backup directory, \<open>None\<close> when it does not exist.\<close>

definition listBackups :: "(string \<Rightarrow> int option) \<Rightarrow> string list option \<Rightarrow> backup_set list" where
  "listBackups dateOf dir =
     (case dir of
        None \<Rightarrow> []
      | Some files \<Rightarrow> sortWith (compareBackups dateOf) (groupBackups files))"

subsection \<open>Restoring\<close>

text \<open>
  The machine a restore works on: the files on disk (path to content) and the content
  of the PostgreSQL server. \<open>psql\<close> is what running \<^verbatim>\<open>psql\<close> on the dump does: it throws,
  or it leaves the server with a new content.
\<close>

record machine =
  disk :: "string \<Rightarrow> string option"
  pg_server :: string

datatype restore_action = CopyFile string string | ExecPsql string string

definition restoreSQLite :: "string \<Rightarrow> string \<Rightarrow> machine \<Rightarrow> (string + unit) \<times> machine \<times> restore_action list" where
  "restoreSQLite backupPath dbPath m =
     (if disk m backupPath = None then (Inl (''Backup file not found: '' @ backupPath), m, [])
      else
        (let m1 = (if disk m dbPath \<noteq> None
                   then m\<lparr> disk := (disk m)(dbPath @ ''.pre-restore'' := disk m dbPath) \<rparr> else m);
             t1 = (if disk m dbPath \<noteq> None then [CopyFile dbPath (dbPath @ ''.pre-restore'')] else [])
         in (Inr (), m1\<lparr> disk := (disk m1)(dbPath := disk m1 backupPath) \<rparr>,
             t1 @ [CopyFile backupPath dbPath])))"

definition restorePostgreSQL :: "string \<Rightarrow> string \<Rightarrow> (string + string) \<Rightarrow> machine
    \<Rightarrow> (string + unit) \<times> machine \<times> restore_action list" where
  "restorePostgreSQL backupPath connectionString psql m =
     (if disk m backupPath = None then (Inl (''Backup file not found: '' @ backupPath), m, [])
      else
        (case psql of
           Inl e \<Rightarrow> (Inl (''PostgreSQL restore failed: '' @ e), m, [ExecPsql connectionString backupPath])
         | Inr db \<Rightarrow> (Inr (), m\<lparr> pg_server := db \<rparr>, [ExecPsql connectionString backupPath])))"

text \<open>
  The choice of the backend in \<^verbatim>\<open>main\<close> of \<^verbatim>\<open>restore-from-backup.js\<close>:
  \<^verbatim>\<open>process.env.DATABASE_CLIENT || 'sqlite'\<close>, where an unset or empty variable is falsy.
\<close>

definition restoreDatabase :: "string option \<Rightarrow> string \<Rightarrow> string \<Rightarrow> string \<Rightarrow> (string + string) \<Rightarrow> machine
    \<Rightarrow> (string + unit) \<times> machine \<times> restore_action list" where
  "restoreDatabase databaseClient dbBackupPath dbPath connectionString psql m =
     (let dbClient = (case databaseClient of None \<Rightarrow> ''sqlite'' | Some c \<Rightarrow> if c = [] then ''sqlite'' else c)
      in if dbClient = ''sqlite'' then restoreSQLite dbBackupPath dbPath m
         else restorePostgreSQL dbBackupPath connectionString psql m)"

section \<open>Reading traces and states\<close>

text \<open>Kinds of actions a trace is searched for.\<close>

fun isSave :: "action \<Rightarrow> bool" where
  "isSave (SaveState s) = True"
| "isSave a = False"

fun isUpload :: "action \<Rightarrow> bool" where
  "isUpload (PutObject b k body ct) = True"
| "isUpload (MultipartUpload b k body ct ps qs) = True"
| "isUpload a = False"

fun isDownload :: "action \<Rightarrow> bool" where
  "isDownload (AxiosGet u t m) = True"
| "isDownload a = False"

fun isRewrite :: "action \<Rightarrow> bool" where
  "isRewrite (UpdateFileToR2 i u) = True"
| "isRewrite a = False"

fun isTransaction :: "action \<Rightarrow> bool" where
  "isTransaction BeginTransaction = True"
| "isTransaction Commit = True"
| "isTransaction Rollback = True"
| "isTransaction a = False"

text \<open>The record ids of a collection, and the three collections having no id in common.\<close>

definition ids :: "entry list \<Rightarrow> nat set" where
  "ids es = set (map entry_id es)"

definition disjointIds :: "state \<Rightarrow> bool" where
  "disjointIds st =
     (ids (processed_files st) \<inter> ids (failed_files st) = {} \<and>
      ids (processed_files st) \<inter> ids (skipped_files st) = {} \<and>
      ids (failed_files st) \<inter> ids (skipped_files st) = {})"

definition allIds :: "state \<Rightarrow> nat set" where
  "allIds st = ids (processed_files st) \<union> ids (failed_files st) \<union> ids (skipped_files st)"

definition idsGrow :: "state \<Rightarrow> state \<Rightarrow> bool" where
  "idsGrow s s' =
     (ids (processed_files s) \<subseteq> ids (processed_files s') \<and>
      ids (failed_files s) \<subseteq> ids (failed_files s') \<and>
      ids (skipped_files s) \<subseteq> ids (skipped_files s'))"

definition outcomeTotal :: "state \<Rightarrow> nat" where
  "outcomeTotal st = success (stats st) + failed (stats st) + skipped (stats st)"

section \<open>Example inputs\<close>

definition ex_file :: media_file where
  "ex_file = \<lparr> file_id = 1, name = ''a.png'', hash = ''abc'', ext = ''.png'', mime = ''image/png'',
     url = ''http://src/abc.png'', file_size = 3 \<rparr>"

definition ex_uploader :: uploader where
  "ex_uploader = \<lparr> bucket = Some ''media'', endpoint = Some ''https://acct.r2.cloudflarestorage.com'',
     publicUrl = Some ''https://cdn.example'' \<rparr>"

definition ex_env :: env_vars where
  "ex_env = \<lparr> AWS_BUCKET = Some ''media'', AWS_ENDPOINT = Some ''https://acct.r2.cloudflarestorage.com'',
     R2_PUBLIC_URL = Some ''https://cdn.example'' \<rparr>"

text \<open>Everything answers; the object is not yet in the bucket.\<close>

definition ex_io :: io where
  "ex_io = \<lparr> begin_res = Inr (), head_res = HeadResolved,
     head_object_res = S3Error ''NotFound'' (Some 404) ''NotFound'',
     get_res = (\<lambda>i. Inr [1, 2, 3]), send_res = Inr (), update_res = Inr (),
     commit_res = Inr (), rollback_res = Inr (), clock = ''t1'' \<rparr>"

definition ex_input :: main_input where
  "ex_input = \<lparr> dryRun = False, env = ex_env, db_init_res = Inr (), cloudinary_files = [ex_file],
     answers = (\<lambda>f. ex_io), state_file = None, now_start = ''t0'', now_end = ''t9'' \<rparr>"

text \<open>
  States that runs leave behind: after the run on \<open>ex_input\<close>, after the same run with
  \<^verbatim>\<open>--dry-run\<close>, and after a run in which every download attempt timed out.
\<close>

definition ex_done_state :: state where
  "ex_done_state =
     \<lparr> migration_id = ''migration-t0'', start_time = ''t0'', end_time = Some ''t9'', status = completed,
       stats = \<lparr> total_files = 1, processed = 1, success = 1, failed = 0, skipped = 0 \<rparr>,
       processed_files =
         [\<lparr> entry_id = 1, entry_original_url = Some ''http://src/abc.png'',
            entry_result = Success ''http://src/abc.png'' ''https://cdn.example/abc.png'' 3,
            timestamp = ''t1'' \<rparr>],
       failed_files = [], skipped_files = [] \<rparr>"

definition ex_dry_state :: state where
  "ex_dry_state =
     \<lparr> migration_id = ''migration-t0'', start_time = ''t0'', end_time = Some ''t9'', status = completed,
       stats = \<lparr> total_files = 1, processed = 1, success = 1, failed = 0, skipped = 0 \<rparr>,
       processed_files =
         [\<lparr> entry_id = 1, entry_original_url = Some ''http://src/abc.png'',
            entry_result = Success ''http://src/abc.png'' ''[DRY-RUN] https://cdn.example/abc.png'' 3,
            timestamp = ''t1'' \<rparr>],
       failed_files = [], skipped_files = [] \<rparr>"

definition ex_failed_state :: state where
  "ex_failed_state =
     \<lparr> migration_id = ''migration-t0'', start_time = ''t0'', end_time = Some ''t9'',
       status = completed_with_errors,
       stats = \<lparr> total_files = 1, processed = 1, success = 0, failed = 1, skipped = 0 \<rparr>,
       processed_files = [],
       failed_files =
         [\<lparr> entry_id = 1, entry_original_url = Some ''http://src/abc.png'',
            entry_result = Failed ''Download failed after 3 retries: timeout'' (Some 3),
            timestamp = ''t1'' \<rparr>],
       skipped_files = [] \<rparr>"

definition ex_timeout_input :: main_input where
  "ex_timeout_input = ex_input\<lparr> answers := (\<lambda>f. ex_io\<lparr> get_res := (\<lambda>i. Inl ''timeout'') \<rparr>) \<rparr>"

definition ex_retry_input :: main_input where
  "ex_retry_input = ex_input\<lparr> state_file := Some ex_failed_state \<rparr>"

text \<open>
  A second record; a run that finds nothing left to do; and a resumed run, which finds
  record 1 done and record 2 outstanding, with the state it leaves.
\<close>

definition ex_file2 :: media_file where
  "ex_file2 = \<lparr> file_id = 2, name = ''b.jpg'', hash = ''def'', ext = ''.jpg'', mime = ''image/jpeg'',
     url = ''http://src/def.jpg'', file_size = 5 \<rparr>"

definition ex_rerun_input :: main_input where
  "ex_rerun_input = ex_input\<lparr> state_file := Some ex_done_state, cloudinary_files := [] \<rparr>"

definition ex_resume_input :: main_input where
  "ex_resume_input = ex_input\<lparr> cloudinary_files := [ex_file, ex_file2], state_file := Some ex_done_state \<rparr>"

definition ex_resumed_state :: state where
  "ex_resumed_state =
     \<lparr> migration_id = ''migration-t0'', start_time = ''t0'', end_time = Some ''t9'', status = completed,
       stats = \<lparr> total_files = 2, processed = 1, success = 2, failed = 0, skipped = 0 \<rparr>,
       processed_files =
         [\<lparr> entry_id = 1, entry_original_url = Some ''http://src/abc.png'',
            entry_result = Success ''http://src/abc.png'' ''https://cdn.example/abc.png'' 3,
            timestamp = ''t1'' \<rparr>,
          \<lparr> entry_id = 2, entry_original_url = Some ''http://src/def.jpg'',
            entry_result = Success ''http://src/def.jpg'' ''https://cdn.example/def.jpg'' 5,
            timestamp = ''t1'' \<rparr>],
       failed_files = [], skipped_files = [] \<rparr>"

text \<open>
  The state on disk when the run on \<open>ex_input\<close> is killed after its only record and
  before the final write, and the run that resumes from it. Then a run on two records
  over one SQLite connection, in the order in which they finish: record 2 cannot begin a
  transaction while record 1 holds one and its rollback ends that transaction, so that
  for record 1 both the commit and the rollback throw.
\<close>

definition ex_killed_state :: state where
  "ex_killed_state =
     \<lparr> migration_id = ''migration-t0'', start_time = ''t0'', end_time = None, status = in_progress,
       stats = \<lparr> total_files = 1, processed = 1, success = 1, failed = 0, skipped = 0 \<rparr>,
       processed_files =
         [\<lparr> entry_id = 1, entry_original_url = Some ''http://src/abc.png'',
            entry_result = Success ''http://src/abc.png'' ''https://cdn.example/abc.png'' 3,
            timestamp = ''t1'' \<rparr>],
       failed_files = [], skipped_files = [] \<rparr>"

definition ex_killed_resume_input :: main_input where
  "ex_killed_resume_input = ex_input\<lparr> state_file := Some ex_killed_state, cloudinary_files := [] \<rparr>"

definition ex_crash_answers :: "media_file \<Rightarrow> io" where
  "ex_crash_answers f =
     (if file_id f = 2
      then ex_io\<lparr> begin_res := Inl ''cannot start a transaction within a transaction'' \<rparr>
      else ex_io\<lparr> commit_res := Inl ''cannot commit - no transaction is active'',
                   rollback_res := Inl ''cannot rollback - no transaction is active'' \<rparr>)"

definition ex_crash_input :: main_input where
  "ex_crash_input = ex_input\<lparr> cloudinary_files := [ex_file2, ex_file], answers := ex_crash_answers \<rparr>"

text \<open>An endpoint that is not an R2 endpoint, with no public domain configured.\<close>

definition ex_bad_env :: env_vars where
  "ex_bad_env = \<lparr> AWS_BUCKET = Some ''media'', AWS_ENDPOINT = Some ''https://example.com'',
     R2_PUBLIC_URL = None \<rparr>"

definition ex_bad_input :: main_input where
  "ex_bad_input = ex_input\<lparr> env := ex_bad_env \<rparr>"

text \<open>A machine with a dump, a snapshot and a live SQLite file.\<close>

definition ex_machine :: machine where
  "ex_machine =
     \<lparr> disk = [''/app/backups/backup-2025-12-23-10-00-00-100Z.sql'' \<mapsto> ''dump'',
               ''/app/backups/data.db.backup-2025-12-23-10-00-00-100Z'' \<mapsto> ''snapshot'',
               ''/app/.tmp/data.db'' \<mapsto> ''live file''],
       pg_server = ''live rows'' \<rparr>"

section \<open>Unfolding the per-record procedure\<close>

lemmas ex_defs = ex_file_def ex_uploader_def ex_io_def ex_env_def ex_input_def
lemmas run_defs = main_def loadState_def dashed_def outstanding_def fromEnv_def recordOutcome_def
lemmas step_defs = task_def onCatch_def migrateFile_def is404_def fileExists_def transfer_def
  downloadFromCloudinary_def upload_def multipartUpload_def getPublicUrl_def js_str_def Let_def

lemma string_of_nat_3: "string_of_nat 3 = ''3''"
  by (simp add: string_of_nat.simps digit_char_def)

lemma downloadLoop_third:
  "downloadLoop u 3 g (Suc (Suc 0)) =
     ([AxiosGet u 60000 104857600],
      (case g 2 of Inr b \<Rightarrow> Inr (Some b)
       | Inl e \<Rightarrow> Inl (''Download failed after 3 retries: '' @ e)))"
  by (subst downloadLoop.simps) (simp add: string_of_nat_3 numeral_2_eq_2 split: sum.splits)

lemma downloadLoop_second:
  "downloadLoop u 3 g (Suc 0) =
     (case g 1 of
        Inr b \<Rightarrow> ([AxiosGet u 60000 104857600], Inr (Some b))
      | Inl e1 \<Rightarrow>
          (AxiosGet u 60000 104857600 # Sleep 2000 # fst (downloadLoop u 3 g (Suc (Suc 0))),
           snd (downloadLoop u 3 g (Suc (Suc 0)))))"
  by (subst downloadLoop.simps) (simp split: sum.splits prod.splits)

lemma downloadLoop_first:
  "downloadLoop u 3 g 0 =
     (case g 0 of
        Inr b \<Rightarrow> ([AxiosGet u 60000 104857600], Inr (Some b))
      | Inl e0 \<Rightarrow>
          (AxiosGet u 60000 104857600 # Sleep 1000 # fst (downloadLoop u 3 g (Suc 0)),
           snd (downloadLoop u 3 g (Suc 0))))"
  by (subst downloadLoop.simps) (simp split: sum.splits prod.splits)

lemma downloadLoop_3:
  "downloadLoop u 3 g 0 =
     (case g 0 of
        Inr b \<Rightarrow> ([AxiosGet u 60000 104857600], Inr (Some b))
      | Inl e0 \<Rightarrow>
         (case g 1 of
            Inr b \<Rightarrow> ([AxiosGet u 60000 104857600, Sleep 1000, AxiosGet u 60000 104857600], Inr (Some b))
          | Inl e1 \<Rightarrow>
             (case g 2 of
                Inr b \<Rightarrow>
                  ([AxiosGet u 60000 104857600, Sleep 1000, AxiosGet u 60000 104857600, Sleep 2000,
                    AxiosGet u 60000 104857600], Inr (Some b))
              | Inl e2 \<Rightarrow>
                  ([AxiosGet u 60000 104857600, Sleep 1000, AxiosGet u 60000 104857600, Sleep 2000,
                    AxiosGet u 60000 104857600],
                   Inl (''Download failed after 3 retries: '' @ e2)))))"
  by (simp add: downloadLoop_first downloadLoop_second downloadLoop_third split: sum.splits)

lemma download_trace_kinds:
  "a \<in> set (fst (downloadLoop u 3 g 0)) \<Longrightarrow> \<not> isSave a \<and> \<not> isUpload a \<and> \<not> isRewrite a \<and> \<not> isTransaction a"
  by (auto simp add: downloadLoop_3 split: sum.splits)

lemma upload_trace_kinds:
  "a \<in> set (fst (upload u w buf key ct)) \<Longrightarrow> \<not> isSave a \<and> \<not> isDownload a \<and> \<not> isRewrite a \<and> \<not> isTransaction a"
  by (auto simp add: upload_def multipartUpload_def split: if_splits sum.splits)

lemma transfer_trace_kinds:
  "a \<in> set (fst (transfer f u w d key ex)) \<Longrightarrow> \<not> isSave a \<and> \<not> isRewrite a \<and> \<not> isTransaction a"
  by (auto simp add: transfer_def downloadFromCloudinary_def case_prod_unfold
      dest: download_trace_kinds upload_trace_kinds split: if_splits sum.splits option.splits)

lemma transfer_dry: "fst (transfer f u w True key ex) = []"
  by (simp add: transfer_def)

lemma migrateFile_trace_kinds:
  "a \<in> set (fst (migrateFile f u w d)) \<Longrightarrow> \<not> isSave a \<and> \<not> isTransaction a"
  by (auto simp add: migrateFile_def fileExists_def Let_def case_prod_unfold
      dest: transfer_trace_kinds split: if_splits sum.splits s3_head.splits)

lemma migrateFile_dry_trace:
  "a \<in> set (fst (migrateFile f u w True)) \<Longrightarrow> \<not> isUpload a \<and> \<not> isDownload a \<and> \<not> isRewrite a"
  by (auto simp add: migrateFile_def fileExists_def Let_def transfer_dry case_prod_unfold
      split: if_splits sum.splits s3_head.splits)

lemma task_trace_no_save: "a \<in> set (fst (task f u w d)) \<Longrightarrow> \<not> isSave a"
  by (auto simp add: task_def onCatch_def case_prod_unfold dest: migrateFile_trace_kinds
      split: if_splits sum.splits)

lemma task_dry_trace:
  "a \<in> set (fst (task f u w True)) \<Longrightarrow> \<not> isUpload a \<and> \<not> isDownload a \<and> \<not> isRewrite a \<and> \<not> isTransaction a"
  by (auto simp add: task_def case_prod_unfold dest: migrateFile_trace_kinds migrateFile_dry_trace)

lemma task_dry_returns: "\<exists>r. snd (task f u w True) = Returned r"
  by (simp add: task_def case_prod_unfold)

section \<open>The transaction around one record\<close>

text \<open>
  The transaction calls of a real run come from \<open>task\<close> alone, and \<^verbatim>\<open>rollback\<close> is
  reached only when \<^verbatim>\<open>beginTransaction\<close> or \<^verbatim>\<open>commit\<close> throws: \<^verbatim>\<open>migrateFile\<close> turns
  every error of its own steps into a returned \<^verbatim>\<open>'failed'\<close> result, after which
  \<^verbatim>\<open>main\<close> commits.
\<close>

lemma rollback_only_on_begin_or_commit_error:
  "Rollback \<in> set (fst (task f u w False)) \<longleftrightarrow>
     (\<exists>e. begin_res w = Inl e) \<or> (\<exists>e. commit_res w = Inl e)"
  by (auto simp add: task_def onCatch_def case_prod_unfold dest: migrateFile_trace_kinds
      split: sum.splits)

text \<open>
  The row is rewritten only on a real run, for the record at hand, and with the address
  that the transfer step returned (from a finished upload, or for an object found in the
  bucket).
\<close>

lemma rewrite_only_with_transferred_url:
  assumes "UpdateFileToR2 i r \<in> set (fst (migrateFile f u w d))"
  shows "\<not> d \<and> i = file_id f \<and>
         (\<exists>ex. snd (fileExists u (hash f @ ext f) w) = Inr ex \<and>
               snd (transfer f u w d (hash f @ ext f) ex) = Inr r)"
proof -
  have nt: "\<And>ex. UpdateFileToR2 i r \<notin> set (fst (transfer f u w d (hash f @ ext f) ex))"
    using transfer_trace_kinds [of "UpdateFileToR2 i r" f u w d "hash f @ ext f"] by auto
  have nf: "UpdateFileToR2 i r \<notin> set (fst (fileExists u (hash f @ ext f) w))"
    by (simp add: fileExists_def)
  from assms nt nf show ?thesis
    by (auto simp add: migrateFile_def Let_def case_prod_unfold split: if_splits sum.splits)
qed

text \<open>
  C1. The claim: on a real run the work on a record runs inside one transaction; when a
  step fails the transaction is rolled back and the outcome is \<^verbatim>\<open>'failed'\<close>. Evaluated
  on a record whose download fails three times: the transaction is opened, the three
  attempts are made, the outcome is \<^verbatim>\<open>'failed'\<close>, and the transaction is committed, not
  rolled back.
\<close>

theorem failed_download_is_committed:
  "task ex_file ex_uploader (ex_io\<lparr> get_res := (\<lambda>i. Inl ''timeout'') \<rparr>) False =
     ([BeginTransaction, AxiosHead ''http://src/abc.png'' 10000, HeadObject ''media'' ''abc.png'',
       AxiosGet ''http://src/abc.png'' 60000 104857600, Sleep 1000,
       AxiosGet ''http://src/abc.png'' 60000 104857600, Sleep 2000,
       AxiosGet ''http://src/abc.png'' 60000 104857600, Commit],
      Returned (Failed ''Download failed after 3 retries: timeout'' (Some 3)))"
  by (simp add: step_defs ex_defs downloadLoop_3)

section \<open>The state ledger over a run\<close>

lemma persisted_append: "persisted sf (t @ t') = persisted (persisted sf t) t'"
  by (induction sf t rule: persisted.induct) simp_all

lemma persisted_no_save: "(\<And>a. a \<in> set t \<Longrightarrow> \<not> isSave a) \<Longrightarrow> persisted sf t = sf"
proof (induction t)
  case Nil
  then show ?case by simp
next
  case (Cons a t)
  have "\<not> isSave a" using Cons.prems by simp
  moreover have "persisted sf t = sf" using Cons by simp
  ultimately show ?case by (cases a) simp_all
qed

lemma persisted_task: "persisted sf (fst (task f u w d)) = sf"
  by (rule persisted_no_save) (rule task_trace_no_save)

lemma recordOutcome_stats:
  "\<forall>e. out \<noteq> Unhandled e \<Longrightarrow>
     processed (stats (recordOutcome f w out n st)) = n \<and>
     outcomeTotal (recordOutcome f w out n st) = outcomeTotal st + 1 \<and>
     total_files (stats (recordOutcome f w out n st)) = total_files (stats st)"
  by (cases out) (auto simp add: recordOutcome_def outcomeTotal_def split: result.splits)

lemma recordOutcome_failed_grows:
  "failed (stats st) \<le> failed (stats (recordOutcome f w out n st))"
  by (cases out) (auto simp add: recordOutcome_def split: result.splits)

lemma runTasks_stats:
  "runTasks d u a fs n st = (t, st', err, outs) \<Longrightarrow>
     outcomeTotal st' = outcomeTotal st + length outs \<and>
     (outs \<noteq> [] \<longrightarrow> processed (stats st') = n + length outs \<and> persisted sf t = Some st') \<and>
     (outs = [] \<longrightarrow> st' = st \<and> persisted sf t = sf) \<and>
     (err = None \<longrightarrow> length outs = length fs) \<and>
     (outs = [] \<and> fs \<noteq> [] \<longrightarrow> err \<noteq> None)"
proof (induction fs arbitrary: n st t st' err outs sf)
  case Nil
  then show ?case by simp
next
  case (Cons f fs)
  obtain tt out where tk: "task f u (a f) d = (tt, out)" by (cases "task f u (a f) d")
  have ptt: "\<And>fl. persisted fl tt = fl" using persisted_task [of _ f u "a f" d] tk by simp
  show ?case
  proof (cases "\<exists>e. out = Unhandled e")
    case True
    then show ?thesis using Cons.prems tk ptt by auto
  next
    case False
    define st1 where "st1 = recordOutcome f (a f) out (n + 1) st"
    obtain t2 st2 err2 outs2 where rt: "runTasks d u a fs (n + 1) st1 = (t2, st2, err2, outs2)"
      by (cases "runTasks d u a fs (n + 1) st1") auto
    from False Cons.prems tk rt
    have eqs: "t = tt @ SaveState st1 # t2" "st' = st2" "err = err2" "outs = (file_id f, out) # outs2"
      by (cases out; simp add: st1_def Let_def)+
    have ro: "processed (stats st1) = n + 1" "outcomeTotal st1 = outcomeTotal st + 1"
      using recordOutcome_stats [of out f "a f" "n + 1" st] False by (simp_all add: st1_def)
    note ih = Cons.IH [OF rt, of "Some st1"]
    have pers: "persisted sf t = persisted (Some st1) t2"
      by (simp add: eqs persisted_append ptt)
    show ?thesis
    proof (cases "outs2 = []")
      case True
      with ih ro eqs pers show ?thesis by auto
    next
      case False
      with ih ro eqs pers show ?thesis by auto
    qed
  qed
qed


lemma main_cases:
  assumes "db_init_res inp = Inr ()"
  obtains
    (noop) "outstanding (loadState (state_file inp) (now_start inp)) (cloudinary_files inp) = []"
      "exit_code (main inp) = 0" "trace (main inp) = [DbClose]" "outcomes (main inp) = []"
  | (crashed) t st2 e outs where
      "outstanding (loadState (state_file inp) (now_start inp)) (cloudinary_files inp) \<noteq> []"
      "runTasks (dryRun inp) (fromEnv (env inp)) (answers inp)
         (outstanding (loadState (state_file inp) (now_start inp)) (cloudinary_files inp)) 0
         ((loadState (state_file inp) (now_start inp))
           \<lparr> stats := (stats (loadState (state_file inp) (now_start inp)))
              \<lparr> total_files := length (cloudinary_files inp) \<rparr> \<rparr>) = (t, st2, Some e, outs)"
      "exit_code (main inp) = 1" "trace (main inp) = t" "outcomes (main inp) = outs"
  | (finished) t st2 outs where
      "outstanding (loadState (state_file inp) (now_start inp)) (cloudinary_files inp) \<noteq> []"
      "runTasks (dryRun inp) (fromEnv (env inp)) (answers inp)
         (outstanding (loadState (state_file inp) (now_start inp)) (cloudinary_files inp)) 0
         ((loadState (state_file inp) (now_start inp))
           \<lparr> stats := (stats (loadState (state_file inp) (now_start inp)))
              \<lparr> total_files := length (cloudinary_files inp) \<rparr> \<rparr>) = (t, st2, None, outs)"
      "exit_code (main inp) = 0"
      "trace (main inp) = t @ [SaveState (st2\<lparr> end_time := Some (now_end inp),
          status := (if failed (stats st2) > 0 then completed_with_errors else completed) \<rparr>), DbClose]"
      "outcomes (main inp) = outs"
proof (cases "outstanding (loadState (state_file inp) (now_start inp)) (cloudinary_files inp) = []")
  case True
  then show ?thesis using assms noop by (simp add: main_def Let_def)
next
  case False
  obtain t st2 err outs where rt: "runTasks (dryRun inp) (fromEnv (env inp)) (answers inp)
         (outstanding (loadState (state_file inp) (now_start inp)) (cloudinary_files inp)) 0
         ((loadState (state_file inp) (now_start inp))
           \<lparr> stats := (stats (loadState (state_file inp) (now_start inp)))
              \<lparr> total_files := length (cloudinary_files inp) \<rparr> \<rparr>) = (t, st2, err, outs)"
    using prod_cases4 by blast
  show ?thesis
  proof (cases err)
    case None
    show ?thesis
      by (rule finished [OF False rt [unfolded None]])
         (simp_all add: main_def Let_def assms False rt None)
  next
    case (Some e)
    show ?thesis
      by (rule crashed [OF False rt [unfolded Some]])
         (simp_all add: main_def Let_def assms False rt Some)
  qed
qed


lemma task_unhandled:
  "snd (task f u w d) = Unhandled e \<Longrightarrow> \<not> d \<and> rollback_res w = Inl e"
  by (auto simp add: task_def onCatch_def case_prod_unfold split: if_splits sum.splits)

lemma runTasks_error:
  "runTasks d u a fs n st = (t, st', Some e, outs) \<Longrightarrow>
     \<not> d \<and> (\<exists>f \<in> set fs. rollback_res (a f) = Inl e)"
proof (induction fs arbitrary: n st t st' outs)
  case Nil
  then show ?case by simp
next
  case (Cons f fs)
  obtain tt out where tk: "task f u (a f) d = (tt, out)" by (cases "task f u (a f) d")
  show ?case
  proof (cases "\<exists>e'. out = Unhandled e'")
    case True
    then obtain e' where out: "out = Unhandled e'" by blast
    with Cons.prems tk have "e' = e" by simp
    with out tk task_unhandled [of f u "a f" d e] show ?thesis by simp
  next
    case False
    obtain t2 st2 err2 outs2 where rt:
      "runTasks d u a fs (n + 1) (recordOutcome f (a f) out (n + 1) st) = (t2, st2, err2, outs2)"
      using prod_cases4 by blast
    from False Cons.prems tk rt have "err2 = Some e"
      by (cases out; simp add: Let_def)
    with Cons.IH rt show ?thesis by auto
  qed
qed

lemma main_ex_input_persists: "persisted None (trace (main ex_input)) = Some ex_done_state"
  by (simp add: run_defs step_defs ex_defs downloadLoop_3 ex_done_state_def)

text \<open>
  C5, as stated, fails for two kinds of run. A run that resumes from the state of a
  killed run and finds nothing outstanding returns with exit code 0 and writes nothing:
  the status on disk stays \<^verbatim>\<open>in_progress\<close> although the failed counter is zero. A run
  in which a \<^verbatim>\<open>rollback\<close> throws exits with 1 before the final write: the status on
  disk is \<^verbatim>\<open>in_progress\<close> with a failed counter of 1.
\<close>

theorem final_status_counterexample:
  "SaveState ex_killed_state \<in> set (trace (main ex_input)) \<and>
   exit_code (main ex_killed_resume_input) = 0 \<and>
   map_option status
     (persisted (state_file ex_killed_resume_input) (trace (main ex_killed_resume_input))) =
     Some in_progress \<and>
   map_option (failed \<circ> stats)
     (persisted (state_file ex_killed_resume_input) (trace (main ex_killed_resume_input))) = Some 0 \<and>
   exit_code (main ex_crash_input) = 1 \<and>
   map_option status (persisted (state_file ex_crash_input) (trace (main ex_crash_input))) =
     Some in_progress \<and>
   map_option (failed \<circ> stats) (persisted (state_file ex_crash_input) (trace (main ex_crash_input))) =
     Some 1"
proof -
  have a: "SaveState ex_killed_state \<in> set (trace (main ex_input))"
    by (simp add: run_defs step_defs ex_defs downloadLoop_3 ex_killed_state_def)
  have b: "exit_code (main ex_killed_resume_input) = 0 \<and>
     persisted (state_file ex_killed_resume_input) (trace (main ex_killed_resume_input)) =
       Some ex_killed_state"
    by (simp add: run_defs ex_defs ex_killed_resume_input_def ex_killed_state_def)
  have c: "exit_code (main ex_crash_input) = 1 \<and>
     map_option status (persisted (state_file ex_crash_input) (trace (main ex_crash_input))) =
       Some in_progress \<and>
     map_option (failed \<circ> stats) (persisted (state_file ex_crash_input) (trace (main ex_crash_input))) =
       Some 1"
    by (simp add: run_defs step_defs ex_defs downloadLoop_3 ex_crash_input_def ex_crash_answers_def
        ex_file2_def)
  from a b c show ?thesis by (simp add: ex_killed_state_def)
qed

text \<open>
  C5, amended. Provided the database opens: a run with nothing outstanding changes
  nothing, it closes the database and returns (exit code 0) without writing the state
  file, whose status stays what it was. A run that has files to do and comes to its end
  (exit code 0) writes a final state whose status is \<^verbatim>\<open>completed\<close> when the failed
  counter is zero and \<^verbatim>\<open>completed_with_errors\<close> otherwise. The run comes to its end
  whenever no \<^verbatim>\<open>rollback\<close> throws.
\<close>

theorem final_status_by_failed_counter:
  assumes "db_init_res inp = Inr ()"
  shows "(outstanding (loadState (state_file inp) (now_start inp)) (cloudinary_files inp) = [] \<longrightarrow>
            exit_code (main inp) = 0 \<and> trace (main inp) = [DbClose] \<and>
            persisted (state_file inp) (trace (main inp)) = state_file inp) \<and>
         (outstanding (loadState (state_file inp) (now_start inp)) (cloudinary_files inp) \<noteq> [] \<and>
          exit_code (main inp) = 0 \<longrightarrow>
            (\<exists>s. persisted (state_file inp) (trace (main inp)) = Some s \<and>
                 status s = (if failed (stats s) = 0 then completed else completed_with_errors))) \<and>
         ((\<forall>f \<in> set (cloudinary_files inp). rollback_res (answers inp f) = Inr ()) \<longrightarrow>
            exit_code (main inp) = 0)"
  using assms
proof (cases inp rule: main_cases)
  case noop
  then show ?thesis by simp
next
  case (crashed t st2 e outs)
  from runTasks_error [OF crashed(2)] obtain f where
    f: "f \<in> set (cloudinary_files inp)" and r: "rollback_res (answers inp f) = Inl e"
    by (auto simp add: outstanding_def)
  from r have "rollback_res (answers inp f) \<noteq> Inr ()" by simp
  with f have "\<not> (\<forall>f \<in> set (cloudinary_files inp). rollback_res (answers inp f) = Inr ())"
    by blast
  with crashed show ?thesis by simp
next
  case (finished t st2 outs)
  then show ?thesis by (simp add: persisted_append)
qed

theorem final_status_witness:
  "db_init_res ex_input = Inr () \<and>
   outstanding (loadState (state_file ex_input) (now_start ex_input)) (cloudinary_files ex_input) \<noteq> [] \<and>
   cloudinary_files ex_input = [ex_file] \<and>
   rollback_res (answers ex_input ex_file) = Inr () \<and>
   exit_code (main ex_input) = 0 \<and>
   map_option status (persisted (state_file ex_input) (trace (main ex_input))) = Some completed \<and>
   map_option (failed \<circ> stats) (persisted (state_file ex_input) (trace (main ex_input))) = Some 0 \<and>
   db_init_res ex_timeout_input = Inr () \<and>
   exit_code (main ex_timeout_input) = 0 \<and>
   map_option status (persisted (state_file ex_timeout_input) (trace (main ex_timeout_input))) =
     Some completed_with_errors \<and>
   map_option (failed \<circ> stats) (persisted (state_file ex_timeout_input) (trace (main ex_timeout_input))) =
     Some 1 \<and>
   db_init_res ex_rerun_input = Inr () \<and>
   outstanding (loadState (state_file ex_rerun_input) (now_start ex_rerun_input))
     (cloudinary_files ex_rerun_input) = [] \<and>
   exit_code (main ex_rerun_input) = 0 \<and>
   persisted (state_file ex_rerun_input) (trace (main ex_rerun_input)) = state_file ex_rerun_input"
  using final_status_by_failed_counter [of ex_input] final_status_by_failed_counter [of ex_timeout_input]
    final_status_by_failed_counter [of ex_rerun_input]
  by (simp add: run_defs step_defs ex_defs downloadLoop_3 ex_timeout_input_def ex_rerun_input_def
      ex_done_state_def)

section \<open>Dry runs\<close>

text \<open>What does hold of a dry run: it neither downloads nor uploads, and it does not touch the database.\<close>

lemma runTasks_dry_trace:
  "runTasks True u a fs n st = (t, st', err, outs) \<Longrightarrow> x \<in> set t \<Longrightarrow>
     \<not> isUpload x \<and> \<not> isDownload x \<and> \<not> isRewrite x \<and> \<not> isTransaction x"
proof (induction fs arbitrary: n st t st' err outs)
  case Nil
  then show ?case by simp
next
  case (Cons f fs)
  obtain tt out where tk: "task f u (a f) True = (tt, out)" by (cases "task f u (a f) True")
  from task_dry_returns [of f u "a f"] tk obtain r where out: "out = Returned r" by auto
  obtain t2 st2 err2 outs2 where rt:
    "runTasks True u a fs (n + 1) (recordOutcome f (a f) out (n + 1) st) = (t2, st2, err2, outs2)"
    using prod_cases4 by blast
  from Cons.prems(1) tk out rt
  have t: "t = tt @ SaveState (recordOutcome f (a f) out (n + 1) st) # t2"
    by (simp add: Let_def)
  from Cons.prems(2) t consider "x \<in> set tt" | "x = SaveState (recordOutcome f (a f) out (n + 1) st)" | "x \<in> set t2"
    by auto
  then show ?case
  proof cases
    case 1
    with task_dry_trace [of x f u "a f"] tk show ?thesis by simp
  next
    case 2
    then show ?thesis by simp
  next
    case 3
    with Cons.IH [OF rt] show ?thesis by simp
  qed
qed

lemma dry_run_makes_no_transfer:
  assumes "dryRun inp" and "x \<in> set (trace (main inp))"
  shows "\<not> isUpload x \<and> \<not> isDownload x \<and> \<not> isRewrite x \<and> \<not> isTransaction x"
proof (cases "db_init_res inp")
  case (Inl e)
  with assms show ?thesis by (simp add: main_def)
next
  case (Inr v)
  then have ok: "db_init_res inp = Inr ()" by simp
  from ok show ?thesis
  proof (cases inp rule: main_cases)
    case noop
    with assms show ?thesis by simp
  next
    case (crashed t st2 e outs)
    with assms runTasks_dry_trace [of _ _ _ _ _ t st2 "Some e" outs x] show ?thesis by simp
  next
    case (finished t st2 outs)
    with assms runTasks_dry_trace [of _ _ _ _ _ t st2 None outs x] show ?thesis by auto
  qed
qed

text \<open>
  C2. The claim: a dry run never rewrites the database, never uploads and never writes
  the state file, so that two dry runs report the same. Evaluated on the example: the dry
  run writes the state file, with record 1 among \<^verbatim>\<open>processed_files\<close> under a
  \<^verbatim>\<open>[DRY-RUN]\<close> address; a second dry run then has nothing outstanding and reports
  nothing, and so does a real run.
\<close>

theorem dry_run_persists_state:
  "persisted None (trace (main (ex_input\<lparr> dryRun := True \<rparr>))) = Some ex_dry_state \<and>
   outcomes (main (ex_input\<lparr> dryRun := True \<rparr>)) =
     [(1, Returned (Success ''http://src/abc.png'' ''[DRY-RUN] https://cdn.example/abc.png'' 3))] \<and>
   outcomes (main (ex_input\<lparr> dryRun := True, state_file := Some ex_dry_state \<rparr>)) = [] \<and>
   outcomes (main (ex_input\<lparr> state_file := Some ex_dry_state \<rparr>)) = []"
  by (simp add: run_defs step_defs ex_defs ex_dry_state_def)

section \<open>The probe of the source\<close>

text \<open>
  C3, as stated, fails: a probe that times out does not fail the record (here the
  transfer goes on and succeeds), and on a real run the transaction is already open when
  a 404 is seen.
\<close>

theorem probe_failure_counterexample:
  "snd (task ex_file ex_uploader
          (ex_io\<lparr> head_res := HeadRejected None ''timeout of 10000ms exceeded'' \<rparr>) False) =
     Returned (Success ''http://src/abc.png'' ''https://cdn.example/abc.png'' 3) \<and>
   fst (task ex_file ex_uploader
          (ex_io\<lparr> head_res := HeadRejected (Some 404) ''Request failed with status code 404'' \<rparr>) False) =
     [BeginTransaction, AxiosHead ''http://src/abc.png'' 10000, Commit]"
  by (simp add: step_defs ex_defs downloadLoop_3)

text \<open>
  C3, amended. A 404 answer to the probe gives \<^verbatim>\<open>skipped\<close>, and the probe is the only
  request made for the record: no look at the bucket, no download, no upload, no rewrite.
  On a real run the transaction was opened before the probe and is committed after it.
  An answer that is not a 404 never gives \<^verbatim>\<open>skipped\<close>.
\<close>

theorem missing_source_is_skipped:
  "(is404 (head_res w) \<longrightarrow>
      migrateFile f u w d = ([AxiosHead (url f) 10000], Skipped ''File not found on Cloudinary (404)'') \<and>
      task f u w True =
        ([AxiosHead (url f) 10000], Returned (Skipped ''File not found on Cloudinary (404)'')) \<and>
      (begin_res w = Inr () \<and> commit_res w = Inr () \<longrightarrow>
         task f u w False =
           ([BeginTransaction, AxiosHead (url f) 10000, Commit],
            Returned (Skipped ''File not found on Cloudinary (404)'')))) \<and>
   (\<not> is404 (head_res w) \<longrightarrow> (\<forall>r. snd (migrateFile f u w d) \<noteq> Skipped r))"
  by (auto simp add: task_def migrateFile_def Let_def case_prod_unfold split: sum.splits)

theorem missing_source_is_skipped_witness:
  "is404 (head_res (ex_io\<lparr> head_res := HeadRejected (Some 404) ''Request failed with status code 404'' \<rparr>)) \<and>
   task ex_file ex_uploader
     (ex_io\<lparr> head_res := HeadRejected (Some 404) ''Request failed with status code 404'' \<rparr>) False =
     ([BeginTransaction, AxiosHead ''http://src/abc.png'' 10000, Commit],
      Returned (Skipped ''File not found on Cloudinary (404)'')) \<and>
   \<not> is404 (head_res ex_io) \<and>
   snd (migrateFile ex_file ex_uploader ex_io False) \<noteq> Skipped ''File not found on Cloudinary (404)''"
  using missing_source_is_skipped [of "ex_io\<lparr> head_res := HeadRejected (Some 404) ''Request failed with status code 404'' \<rparr>" ex_file ex_uploader False]
    missing_source_is_skipped [of ex_io ex_file ex_uploader False]
  by (simp add: is404_def ex_io_def ex_file_def)

section \<open>The processed counter\<close>

lemma main_db_failure: "db_init_res inp = Inl e \<Longrightarrow> outcomes (main inp) = []"
  by (simp add: main_def)

lemma outcomeTotal_total_files [simp]:
  "outcomeTotal (st\<lparr> stats := (stats st)\<lparr> total_files := k \<rparr> \<rparr>) = outcomeTotal st"
  by (simp add: outcomeTotal_def)

text \<open>
  C10, as stated, fails for a resumed run that finds nothing to do: it returns before the
  counter is written, so the state file keeps the \<^verbatim>\<open>processed\<close> of the run before (here 1,
  with no record handled), and \<^verbatim>\<open>processed\<close> still equals the sum of the three outcome
  counters.
\<close>

theorem rerun_with_nothing_to_do_counterexample:
  "persisted None (trace (main ex_input)) = Some ex_done_state \<and>
   state_file ex_rerun_input = Some ex_done_state \<and>
   outcomes (main ex_rerun_input) = [] \<and>
   exit_code (main ex_rerun_input) = 0 \<and>
   map_option (processed \<circ> stats)
     (persisted (state_file ex_rerun_input) (trace (main ex_rerun_input))) = Some 1 \<and>
   map_option outcomeTotal
     (persisted (state_file ex_rerun_input) (trace (main ex_rerun_input))) = Some 1"
  by (simp add: run_defs step_defs ex_defs downloadLoop_3 ex_done_state_def ex_rerun_input_def
      outcomeTotal_def)

text \<open>
  C10, amended. After a run that handles at least one record, the \<^verbatim>\<open>processed\<close> counter
  on disk is the number of records handled in this run, while the sum of the
  \<^verbatim>\<open>success\<close>, \<^verbatim>\<open>failed\<close> and \<^verbatim>\<open>skipped\<close> counters is the sum loaded from the state
  file plus that number. So whenever the loaded counters were not all zero,
  \<^verbatim>\<open>processed\<close> differs from their sum.
\<close>

theorem processed_counts_this_run_only:
  assumes "outcomes (main inp) \<noteq> []"
  shows "\<exists>s. persisted (state_file inp) (trace (main inp)) = Some s \<and>
             processed (stats s) = length (outcomes (main inp)) \<and>
             outcomeTotal s =
               outcomeTotal (loadState (state_file inp) (now_start inp)) + length (outcomes (main inp)) \<and>
             (0 < outcomeTotal (loadState (state_file inp) (now_start inp)) \<longrightarrow>
                processed (stats s) \<noteq> outcomeTotal s)"
proof (cases "db_init_res inp")
  case (Inl e)
  with assms main_db_failure show ?thesis by blast
next
  case (Inr v)
  then have ok: "db_init_res inp = Inr ()" by simp
  from ok show ?thesis
  proof (cases inp rule: main_cases)
    case noop
    with assms show ?thesis by simp
  next
    case (crashed t st2 e outs)
    with assms have ne: "outs \<noteq> []" by simp
    from runTasks_stats [OF crashed(2), of "state_file inp"] ne crashed show ?thesis
      by auto
  next
    case (finished t st2 outs)
    with assms have ne: "outs \<noteq> []" by simp
    from runTasks_stats [OF finished(2), of "state_file inp"] ne finished show ?thesis
      by (auto simp add: persisted_append outcomeTotal_def)
  qed
qed

theorem processed_counts_this_run_only_witness:
  "outcomes (main ex_retry_input) \<noteq> [] \<and>
   0 < outcomeTotal (loadState (state_file ex_retry_input) (now_start ex_retry_input)) \<and>
   length (outcomes (main ex_retry_input)) = 1 \<and>
   map_option (processed \<circ> stats)
     (persisted (state_file ex_retry_input) (trace (main ex_retry_input))) = Some 1 \<and>
   map_option outcomeTotal
     (persisted (state_file ex_retry_input) (trace (main ex_retry_input))) = Some 2"
  using processed_counts_this_run_only [of ex_retry_input]
  by (simp add: run_defs step_defs ex_defs downloadLoop_3 ex_failed_state_def ex_retry_input_def
      outcomeTotal_def)

section \<open>The ids in the three collections\<close>

lemma idsGrow_refl: "idsGrow s s"
  by (simp add: idsGrow_def)

lemma idsGrow_trans: "idsGrow s s' \<Longrightarrow> idsGrow s' s'' \<Longrightarrow> idsGrow s s''"
  by (auto simp add: idsGrow_def)

lemma recordOutcome_ids:
  "\<forall>e. out \<noteq> Unhandled e \<Longrightarrow>
     idsGrow st (recordOutcome f w out n st) \<and>
     allIds (recordOutcome f w out n st) = insert (file_id f) (allIds st) \<and>
     (file_id f \<notin> allIds st \<and> disjointIds st \<longrightarrow> disjointIds (recordOutcome f w out n st))"
  by (cases out)
     (auto simp add: recordOutcome_def idsGrow_def allIds_def disjointIds_def ids_def
        split: result.splits)

lemma runTasks_ids:
  "runTasks d u a fs n st = (t, st', err, outs) \<Longrightarrow>
     idsGrow st st' \<and> (\<forall>s. SaveState s \<in> set t \<longrightarrow> idsGrow st s) \<and>
     (distinct (map file_id fs) \<and> file_id ` set fs \<inter> allIds st = {} \<and> disjointIds st \<longrightarrow>
        disjointIds st' \<and> (\<forall>s. SaveState s \<in> set t \<longrightarrow> disjointIds s))"
proof (induction fs arbitrary: n st t st' err outs)
  case Nil
  then show ?case by (simp add: idsGrow_refl)
next
  case (Cons f fs)
  obtain tt out where tk: "task f u (a f) d = (tt, out)" by (cases "task f u (a f) d")
  have nosave: "\<And>s. SaveState s \<notin> set tt"
    using task_trace_no_save [of _ f u "a f" d] tk by fastforce
  show ?case
  proof (cases "\<exists>e. out = Unhandled e")
    case True
    with Cons.prems tk nosave show ?thesis by (auto simp add: idsGrow_refl)
  next
    case False
    define st1 where "st1 = recordOutcome f (a f) out (n + 1) st"
    obtain t2 st2 err2 outs2 where rt: "runTasks d u a fs (n + 1) st1 = (t2, st2, err2, outs2)"
      using prod_cases4 by blast
    from False Cons.prems tk rt
    have eqs: "t = tt @ SaveState st1 # t2" "st' = st2"
      by (cases out; simp add: st1_def Let_def)+
    have ro: "idsGrow st st1" "allIds st1 = insert (file_id f) (allIds st)"
      "file_id f \<notin> allIds st \<and> disjointIds st \<longrightarrow> disjointIds st1"
      using recordOutcome_ids [of out st f "a f" "n + 1"] False by (simp_all add: st1_def)
    note ih = Cons.IH [OF rt]
    have grow: "idsGrow st st'" "\<forall>s. SaveState s \<in> set t \<longrightarrow> idsGrow st s"
      using ih ro(1) eqs nosave by (auto intro: idsGrow_trans)
    have disj: "disjointIds st' \<and> (\<forall>s. SaveState s \<in> set t \<longrightarrow> disjointIds s)"
      if h: "distinct (map file_id (f # fs))" "file_id ` set (f # fs) \<inter> allIds st = {}" "disjointIds st"
    proof -
      from h have d1: "disjointIds st1" using ro(3) by auto
      from h have "distinct (map file_id fs)" "file_id ` set fs \<inter> allIds st1 = {}"
        using ro(2) by auto
      with d1 ih have "disjointIds st2 \<and> (\<forall>s. SaveState s \<in> set t2 \<longrightarrow> disjointIds s)" by simp
      with d1 eqs nosave show ?thesis by auto
    qed
    from grow disj show ?thesis by blast
  qed
qed

lemma outstanding_not_processed:
  "file_id ` set (outstanding s0 fs) \<inter> ids (processed_files s0) = {}"
  by (auto simp add: outstanding_def ids_def)

lemma outstanding_subset: "set (outstanding s0 fs) \<subseteq> set fs"
  by (auto simp add: outstanding_def)

lemma outstanding_distinct:
  "distinct (map file_id fs) \<Longrightarrow> distinct (map file_id (outstanding s0 fs))"
  by (simp add: outstanding_def distinct_map_filter)

lemma ids_total_files [simp]:
  "idsGrow (st\<lparr> stats := x \<rparr>) s = idsGrow st s"
  "allIds (st\<lparr> stats := x \<rparr>) = allIds st"
  "disjointIds (st\<lparr> stats := x \<rparr>) = disjointIds st"
  "idsGrow s (st\<lparr> end_time := y, status := z \<rparr>) = idsGrow s st"
  "disjointIds (st\<lparr> end_time := y, status := z \<rparr>) = disjointIds st"
  by (simp_all add: idsGrow_def allIds_def disjointIds_def)

lemma main_ex_resume_persists:
  "persisted (state_file ex_resume_input) (trace (main ex_resume_input)) = Some ex_resumed_state"
  by (simp add: run_defs step_defs ex_defs downloadLoop_3 ex_done_state_def ex_resume_input_def
      ex_file2_def ex_resumed_state_def ids_def)

text \<open>
  C4, as stated, fails on a resumed run: only \<^verbatim>\<open>processed_files\<close> is used to filter
  the records, so a record that failed in the run before is tried again, and when it
  succeeds its id is in \<^verbatim>\<open>processed_files\<close> and still in \<^verbatim>\<open>failed_files\<close>.
\<close>

theorem retry_after_failure_counterexample:
  "persisted None (trace (main ex_timeout_input)) = Some ex_failed_state \<and>
   disjointIds ex_failed_state \<and>
   map_option disjointIds (persisted (state_file ex_retry_input) (trace (main ex_retry_input))) = Some False \<and>
   map_option (ids \<circ> processed_files)
     (persisted (state_file ex_retry_input) (trace (main ex_retry_input))) = Some {1} \<and>
   map_option (ids \<circ> failed_files)
     (persisted (state_file ex_retry_input) (trace (main ex_retry_input))) = Some {1}"
  by (simp add: run_defs step_defs ex_defs downloadLoop_3 ex_failed_state_def ex_timeout_input_def
      ex_retry_input_def disjointIds_def ids_def)

text \<open>
  C4, amended. Every state written during a run has, collection by collection, all the
  ids of the state that was loaded, so a restart after a kill never loses an id. When the
  loaded state has no id in two collections, the records have distinct ids and no record
  still to be migrated is among the failed or skipped entries of the loaded state (as in
  a first run), no state written has an id in two collections.
\<close>

theorem ledger_ids_grow_and_stay_apart:
  assumes "SaveState s \<in> set (trace (main inp))"
  shows "idsGrow (loadState (state_file inp) (now_start inp)) s \<and>
         (distinct (map file_id (cloudinary_files inp)) \<and>
          disjointIds (loadState (state_file inp) (now_start inp)) \<and>
          (ids (failed_files (loadState (state_file inp) (now_start inp))) \<union>
           ids (skipped_files (loadState (state_file inp) (now_start inp)))) \<inter>
            file_id ` set (cloudinary_files inp) = {} \<longrightarrow>
          disjointIds s)"
proof (cases "db_init_res inp")
  case (Inl e)
  with assms show ?thesis by (simp add: main_def)
next
  case (Inr v)
  then have ok: "db_init_res inp = Inr ()" by simp
  let ?s0 = "loadState (state_file inp) (now_start inp)"
  let ?fs = "outstanding ?s0 (cloudinary_files inp)"
  have pre: "distinct (map file_id ?fs) \<and> file_id ` set ?fs \<inter> allIds ?s0 = {}"
    if "distinct (map file_id (cloudinary_files inp))"
       "(ids (failed_files ?s0) \<union> ids (skipped_files ?s0)) \<inter> file_id ` set (cloudinary_files inp) = {}"
    using that outstanding_not_processed [of ?s0 "cloudinary_files inp"]
      outstanding_subset [of ?s0 "cloudinary_files inp"]
      outstanding_distinct [of "cloudinary_files inp" ?s0]
    by (auto simp add: allIds_def)
  from ok show ?thesis
  proof (cases inp rule: main_cases)
    case noop
    with assms show ?thesis by simp
  next
    case (crashed t st2 e outs)
    from runTasks_ids [OF crashed(2)] pre assms crashed(4) show ?thesis by simp
  next
    case (finished t st2 outs)
    from runTasks_ids [OF finished(2)] pre assms finished(4) show ?thesis by auto
  qed
qed

theorem ledger_ids_witness:
  "SaveState ex_resumed_state \<in> set (trace (main ex_resume_input)) \<and>
   distinct (map file_id (cloudinary_files ex_resume_input)) \<and>
   disjointIds (loadState (state_file ex_resume_input) (now_start ex_resume_input)) \<and>
   (ids (failed_files (loadState (state_file ex_resume_input) (now_start ex_resume_input))) \<union>
    ids (skipped_files (loadState (state_file ex_resume_input) (now_start ex_resume_input)))) \<inter>
      file_id ` set (cloudinary_files ex_resume_input) = {} \<and>
   disjointIds ex_resumed_state \<and>
   idsGrow (loadState (state_file ex_resume_input) (now_start ex_resume_input)) ex_resumed_state"
  using ledger_ids_grow_and_stay_apart [of ex_resumed_state ex_resume_input]
  by (simp add: run_defs step_defs ex_defs downloadLoop_3 ex_done_state_def ex_resume_input_def
      ex_file2_def ex_resumed_state_def disjointIds_def idsGrow_def ids_def)

section \<open>Download attempts\<close>

lemma download_requests:
  "length (filter isDownload (fst (downloadLoop u 3 g 0))) \<le> 3 \<and>
   (\<forall>a \<in> set (fst (downloadLoop u 3 g 0)). isDownload a \<longrightarrow> a = AxiosGet u 60000 (100 * 1024 * 1024))"
  by (simp add: downloadLoop_3 split: sum.splits)

lemma upload_no_download: "filter isDownload (fst (upload u w buf key ct)) = []"
  by (simp add: upload_def multipartUpload_def case_prod_unfold split: sum.splits)

lemma transfer_requests:
  "length (filter isDownload (fst (transfer f u w d key ex))) \<le> 3 \<and>
   (\<forall>a \<in> set (fst (transfer f u w d key ex)). isDownload a \<longrightarrow>
      a = AxiosGet (url f) 60000 (100 * 1024 * 1024))"
proof -
  have up: "\<And>buf a. a \<in> set (fst (upload u w buf key (mime f))) \<Longrightarrow> \<not> isDownload a"
    using upload_trace_kinds by blast
  show ?thesis
    using download_requests [of "url f" "get_res w"]
    by (auto simp add: transfer_def downloadFromCloudinary_def case_prod_unfold upload_no_download
        dest: up split: sum.splits option.splits)
qed

lemma migrateFile_requests:
  "length (filter isDownload (fst (migrateFile f u w d))) \<le> 3 \<and>
   (\<forall>a \<in> set (fst (migrateFile f u w d)). isDownload a \<longrightarrow>
      a = AxiosGet (url f) 60000 (100 * 1024 * 1024))"
  using transfer_requests [of f u w d "hash f @ ext f"]
  by (auto simp add: migrateFile_def fileExists_def Let_def case_prod_unfold
      split: sum.splits s3_head.splits)

lemma download_when_absent:
  assumes "\<not> is404 (head_res w)" and "snd (fileExists u (hash f @ ext f) w) = Inr False"
  shows "(\<exists>rest. fst (migrateFile f u w False) =
            AxiosHead (url f) 10000 # fst (fileExists u (hash f @ ext f) w) @
            fst (downloadFromCloudinary (url f) 3 (get_res w)) @ rest) \<and>
         downloadFromCloudinary (url f) 3 (get_res w) =
           (case get_res w 0 of
              Inr b \<Rightarrow> ([AxiosGet (url f) 60000 (100 * 1024 * 1024)], Inr (Some b))
            | Inl e0 \<Rightarrow>
               (case get_res w 1 of
                  Inr b \<Rightarrow>
                    ([AxiosGet (url f) 60000 (100 * 1024 * 1024), Sleep 1000,
                      AxiosGet (url f) 60000 (100 * 1024 * 1024)], Inr (Some b))
                | Inl e1 \<Rightarrow>
                   (case get_res w 2 of
                      Inr b \<Rightarrow>
                        ([AxiosGet (url f) 60000 (100 * 1024 * 1024), Sleep 1000,
                          AxiosGet (url f) 60000 (100 * 1024 * 1024), Sleep 2000,
                          AxiosGet (url f) 60000 (100 * 1024 * 1024)], Inr (Some b))
                    | Inl e2 \<Rightarrow>
                        ([AxiosGet (url f) 60000 (100 * 1024 * 1024), Sleep 1000,
                          AxiosGet (url f) 60000 (100 * 1024 * 1024), Sleep 2000,
                          AxiosGet (url f) 60000 (100 * 1024 * 1024)],
                         Inl (''Download failed after 3 retries: '' @ e2))))) \<and>
         (\<forall>e0 e1 e2. get_res w 0 = Inl e0 \<and> get_res w 1 = Inl e1 \<and> get_res w 2 = Inl e2 \<longrightarrow>
            migrateFile f u w False =
              (AxiosHead (url f) 10000 # fst (fileExists u (hash f @ ext f) w) @
               fst (downloadFromCloudinary (url f) 3 (get_res w)),
               Failed (''Download failed after 3 retries: '' @ e2) (Some 3)))"
proof -
  obtain t1 where fe: "fileExists u (hash f @ ext f) w = (t1, Inr False)"
    using assms(2) by (cases "fileExists u (hash f @ ext f) w") simp
  have dl: "downloadFromCloudinary (url f) 3 (get_res w) = downloadLoop (url f) 3 (get_res w) 0"
    by (simp add: downloadFromCloudinary_def)
  have a: "\<exists>rest. fst (migrateFile f u w False) =
            AxiosHead (url f) 10000 # fst (fileExists u (hash f @ ext f) w) @
            fst (downloadFromCloudinary (url f) 3 (get_res w)) @ rest"
    using assms(1) fe
    by (simp add: migrateFile_def transfer_def Let_def case_prod_unfold
        split: sum.splits option.splits)
  have b: "\<forall>e0 e1 e2. get_res w 0 = Inl e0 \<and> get_res w 1 = Inl e1 \<and> get_res w 2 = Inl e2 \<longrightarrow>
            migrateFile f u w False =
              (AxiosHead (url f) 10000 # fst (fileExists u (hash f @ ext f) w) @
               fst (downloadFromCloudinary (url f) 3 (get_res w)),
               Failed (''Download failed after 3 retries: '' @ e2) (Some 3))"
    using assms(1) fe
    by (simp add: migrateFile_def transfer_def Let_def dl downloadLoop_3)
  have c: "downloadFromCloudinary (url f) 3 (get_res w) =
           (case get_res w 0 of
              Inr b \<Rightarrow> ([AxiosGet (url f) 60000 (100 * 1024 * 1024)], Inr (Some b))
            | Inl e0 \<Rightarrow>
               (case get_res w 1 of
                  Inr b \<Rightarrow>
                    ([AxiosGet (url f) 60000 (100 * 1024 * 1024), Sleep 1000,
                      AxiosGet (url f) 60000 (100 * 1024 * 1024)], Inr (Some b))
                | Inl e1 \<Rightarrow>
                   (case get_res w 2 of
                      Inr b \<Rightarrow>
                        ([AxiosGet (url f) 60000 (100 * 1024 * 1024), Sleep 1000,
                          AxiosGet (url f) 60000 (100 * 1024 * 1024), Sleep 2000,
                          AxiosGet (url f) 60000 (100 * 1024 * 1024)], Inr (Some b))
                    | Inl e2 \<Rightarrow>
                        ([AxiosGet (url f) 60000 (100 * 1024 * 1024), Sleep 1000,
                          AxiosGet (url f) 60000 (100 * 1024 * 1024), Sleep 2000,
                          AxiosGet (url f) 60000 (100 * 1024 * 1024)],
                         Inl (''Download failed after 3 retries: '' @ e2)))))"
    by (simp add: dl downloadLoop_3 split: sum.splits)
  from a c b show ?thesis by (intro conjI)
qed

text \<open>
  C6. No record is downloaded with more than three requests, and every request carries
  the 60 s timeout and the limit of \<open>100 * 1024 * 1024\<close> bytes. For a record that passed
  the probe and whose object is not in the bucket, a real run goes on to the download:
  the wait is 1000 ms after the first failed attempt and 2000 ms after the second, and
  nothing is waited after the third. When all three fail, the outcome is \<^verbatim>\<open>failed\<close>,
  and its cause is the message of the exhausted download,
  \<^verbatim>\<open>Download failed after 3 retries:\<close> followed by the last error.
\<close>

theorem download_three_attempts:
  "length (filter isDownload (fst (migrateFile f u w d))) \<le> 3 \<and>
   (\<forall>a \<in> set (fst (migrateFile f u w d)). isDownload a \<longrightarrow>
      a = AxiosGet (url f) 60000 (100 * 1024 * 1024)) \<and>
   (\<not> is404 (head_res w) \<and> snd (fileExists u (hash f @ ext f) w) = Inr False \<longrightarrow>
      (\<exists>rest. fst (migrateFile f u w False) =
                AxiosHead (url f) 10000 # fst (fileExists u (hash f @ ext f) w) @
                fst (downloadFromCloudinary (url f) 3 (get_res w)) @ rest) \<and>
             downloadFromCloudinary (url f) 3 (get_res w) =
               (case get_res w 0 of
                  Inr b \<Rightarrow> ([AxiosGet (url f) 60000 (100 * 1024 * 1024)], Inr (Some b))
                | Inl e0 \<Rightarrow>
                   (case get_res w 1 of
                      Inr b \<Rightarrow>
                        ([AxiosGet (url f) 60000 (100 * 1024 * 1024), Sleep 1000,
                          AxiosGet (url f) 60000 (100 * 1024 * 1024)], Inr (Some b))
                    | Inl e1 \<Rightarrow>
                       (case get_res w 2 of
                          Inr b \<Rightarrow>
                            ([AxiosGet (url f) 60000 (100 * 1024 * 1024), Sleep 1000,
                              AxiosGet (url f) 60000 (100 * 1024 * 1024), Sleep 2000,
                              AxiosGet (url f) 60000 (100 * 1024 * 1024)], Inr (Some b))
                        | Inl e2 \<Rightarrow>
                            ([AxiosGet (url f) 60000 (100 * 1024 * 1024), Sleep 1000,
                              AxiosGet (url f) 60000 (100 * 1024 * 1024), Sleep 2000,
                              AxiosGet (url f) 60000 (100 * 1024 * 1024)],
                             Inl (''Download failed after 3 retries: '' @ e2))))) \<and>
             (\<forall>e0 e1 e2. get_res w 0 = Inl e0 \<and> get_res w 1 = Inl e1 \<and> get_res w 2 = Inl e2 \<longrightarrow>
                migrateFile f u w False =
                  (AxiosHead (url f) 10000 # fst (fileExists u (hash f @ ext f) w) @
                   fst (downloadFromCloudinary (url f) 3 (get_res w)),
                   Failed (''Download failed after 3 retries: '' @ e2) (Some 3))))"
  apply (rule conjI)
   apply (rule conjunct1 [OF migrateFile_requests])
  apply (rule conjI)
   apply (rule conjunct2 [OF migrateFile_requests])
  apply (rule impI)
  apply (erule conjE)
  apply (rule download_when_absent)
   apply assumption
  apply assumption
  done

theorem download_three_attempts_witness:
  "\<not> is404 (head_res (ex_io\<lparr> get_res := (\<lambda>i. Inl ''timeout'') \<rparr>)) \<and>
   snd (fileExists ex_uploader (hash ex_file @ ext ex_file) (ex_io\<lparr> get_res := (\<lambda>i. Inl ''timeout'') \<rparr>)) = Inr False \<and>
   migrateFile ex_file ex_uploader (ex_io\<lparr> get_res := (\<lambda>i. Inl ''timeout'') \<rparr>) False =
     ([AxiosHead ''http://src/abc.png'' 10000, HeadObject ''media'' ''abc.png'',
       AxiosGet ''http://src/abc.png'' 60000 104857600, Sleep 1000,
       AxiosGet ''http://src/abc.png'' 60000 104857600, Sleep 2000,
       AxiosGet ''http://src/abc.png'' 60000 104857600],
      Failed ''Download failed after 3 retries: timeout'' (Some 3)) \<and>
   length (filter isDownload
     (fst (migrateFile ex_file ex_uploader (ex_io\<lparr> get_res := (\<lambda>i. Inl ''timeout'') \<rparr>) False))) = 3"
proof -
  let ?w = "ex_io\<lparr> get_res := (\<lambda>i. Inl ''timeout'') \<rparr>"
  have h1: "\<not> is404 (head_res ?w)" by (simp add: is404_def ex_io_def)
  have h2: "snd (fileExists ex_uploader (hash ex_file @ ext ex_file) ?w) = Inr False"
    by (simp add: fileExists_def ex_io_def)
  have g: "get_res ?w 0 = Inl ''timeout'' \<and> get_res ?w 1 = Inl ''timeout'' \<and> get_res ?w 2 = Inl ''timeout''"
    by (simp add: ex_io_def)
  from download_three_attempts [where w = ?w and u = ex_uploader and f = ex_file and d = False] h1 h2
  have "\<forall>e0 e1 e2. get_res ?w 0 = Inl e0 \<and> get_res ?w 1 = Inl e1 \<and> get_res ?w 2 = Inl e2 \<longrightarrow>
          migrateFile ex_file ex_uploader ?w False =
            (AxiosHead (url ex_file) 10000 # fst (fileExists ex_uploader (hash ex_file @ ext ex_file) ?w) @
             fst (downloadFromCloudinary (url ex_file) 3 (get_res ?w)),
             Failed (''Download failed after 3 retries: '' @ e2) (Some 3))"
    by blast
  with g have m: "migrateFile ex_file ex_uploader ?w False =
            (AxiosHead (url ex_file) 10000 # fst (fileExists ex_uploader (hash ex_file @ ext ex_file) ?w) @
             fst (downloadFromCloudinary (url ex_file) 3 (get_res ?w)),
             Failed (''Download failed after 3 retries: '' @ ''timeout'') (Some 3))"
    by blast
  have d: "downloadFromCloudinary (url ex_file) 3 (get_res ?w) =
     ([AxiosGet ''http://src/abc.png'' 60000 104857600, Sleep 1000,
       AxiosGet ''http://src/abc.png'' 60000 104857600, Sleep 2000,
       AxiosGet ''http://src/abc.png'' 60000 104857600],
      Inl ''Download failed after 3 retries: timeout'')"
    by (simp add: downloadFromCloudinary_def downloadLoop_3 ex_io_def ex_file_def)
  have fe: "fst (fileExists ex_uploader (hash ex_file @ ext ex_file) ?w) = [HeadObject ''media'' ''abc.png'']"
    by (simp add: fileExists_def ex_uploader_def ex_file_def js_str_def)
  have m': "migrateFile ex_file ex_uploader ?w False =
     ([AxiosHead ''http://src/abc.png'' 10000, HeadObject ''media'' ''abc.png'',
       AxiosGet ''http://src/abc.png'' 60000 104857600, Sleep 1000,
       AxiosGet ''http://src/abc.png'' 60000 104857600, Sleep 2000,
       AxiosGet ''http://src/abc.png'' 60000 104857600],
      Failed ''Download failed after 3 retries: timeout'' (Some 3))"
    unfolding m d fe by (simp add: ex_file_def)
  have n: "length (filter isDownload
     (fst (migrateFile ex_file ex_uploader ?w False))) = 3"
    unfolding m' by simp
  from h1 h2 m' n show ?thesis by blast
qed

section \<open>A malformed endpoint\<close>

lemma main_exit_ok:
  assumes "db_init_res inp = Inr ()"
    and "\<forall>f \<in> set (cloudinary_files inp). rollback_res (answers inp f) = Inr ()"
  shows "exit_code (main inp) = 0"
  using assms(1)
proof (cases inp rule: main_cases)
  case noop
  then show ?thesis by simp
next
  case (crashed t st2 e outs)
  from runTasks_error [OF crashed(2)] obtain f where
    f: "f \<in> set (cloudinary_files inp)" and r: "rollback_res (answers inp f) = Inl e"
    by (auto simp add: outstanding_def)
  from r have "rollback_res (answers inp f) \<noteq> Inr ()" by simp
  with f assms(2) show ?thesis by blast
next
  case (finished t st2 outs)
  then show ?thesis by simp
qed

text \<open>
  C7, as stated, fails: with the endpoint \<^verbatim>\<open>https://example.com\<close> and no public domain
  the run starts, uploads the object, fails the record when the public address is
  computed, and ends with exit code 0 and status \<^verbatim>\<open>completed_with_errors\<close>.
\<close>

theorem invalid_endpoint_counterexample:
  "exit_code (main ex_bad_input) = 0 \<and>
   outcomes (main ex_bad_input) =
     [(1, Returned (Failed ''Failed to upload to R2: Invalid R2 endpoint format'' (Some 3)))] \<and>
   PutObject ''media'' ''abc.png'' [1, 2, 3] ''image/png'' \<in> set (trace (main ex_bad_input)) \<and>
   map_option status (persisted None (trace (main ex_bad_input))) = Some completed_with_errors"
  by (simp add: run_defs step_defs ex_defs downloadLoop_3 ex_bad_input_def ex_bad_env_def
      extractAccountId_def accountIdAt_def startsWith_def)

text \<open>
  C7, amended. When the endpoint does not match the pattern and no public domain is
  configured, building the uploader raises nothing. The error
  \<^verbatim>\<open>Invalid R2 endpoint format\<close> comes up each time a public address is computed, inside
  \<^verbatim>\<open>migrateFile\<close>, where it is caught: \<^verbatim>\<open>migrateFile\<close> returns \<^verbatim>\<open>skipped\<close> or
  \<^verbatim>\<open>failed\<close> for every record and never \<^verbatim>\<open>success\<close>. Provided the database opens
  and no rollback throws, the run goes on to its end with exit code 0.
\<close>

theorem invalid_endpoint_fails_each_record:
  assumes "AWS_ENDPOINT e = Some ep" and "accountIdSearch ep = None"
    and "R2_PUBLIC_URL e = None \<or> R2_PUBLIC_URL e = Some []"
  shows "getPublicUrl (fromEnv e) key = Inl ''Invalid R2 endpoint format'' \<and>
         (\<exists>r. snd (migrateFile f (fromEnv e) w d) = Skipped r \<or>
              snd (migrateFile f (fromEnv e) w d) = Failed r (Some 3)) \<and>
         (env inp = e \<and> db_init_res inp = Inr () \<and>
          (\<forall>f \<in> set (cloudinary_files inp). rollback_res (answers inp f) = Inr ()) \<longrightarrow>
            exit_code (main inp) = 0)"
proof -
  have g: "\<And>k. getPublicUrl (fromEnv e) k = Inl ''Invalid R2 endpoint format''"
    using assms by (auto simp add: getPublicUrl_def extractAccountId_def fromEnv_def)
  have m: "\<exists>r. snd (migrateFile f (fromEnv e) w d) = Skipped r \<or>
              snd (migrateFile f (fromEnv e) w d) = Failed r (Some 3)"
    by (auto simp add: migrateFile_def transfer_def upload_def multipartUpload_def fileExists_def g
        Let_def case_prod_unfold split: sum.splits option.splits s3_head.splits)
  from g m main_exit_ok [of inp] show ?thesis by blast
qed

theorem invalid_endpoint_witness:
  "AWS_ENDPOINT ex_bad_env = Some ''https://example.com'' \<and>
   accountIdSearch ''https://example.com'' = None \<and>
   R2_PUBLIC_URL ex_bad_env = None \<and>
   env ex_bad_input = ex_bad_env \<and>
   db_init_res ex_bad_input = Inr () \<and>
   cloudinary_files ex_bad_input = [ex_file] \<and>
   rollback_res (answers ex_bad_input ex_file) = Inr () \<and>
   getPublicUrl (fromEnv ex_bad_env) ''abc.png'' = Inl ''Invalid R2 endpoint format'' \<and>
   snd (migrateFile ex_file (fromEnv ex_bad_env) ex_io False) =
     Failed ''Failed to upload to R2: Invalid R2 endpoint format'' (Some 3) \<and>
   exit_code (main ex_bad_input) = 0"
  using invalid_endpoint_fails_each_record
      [where e = ex_bad_env and ep = "''https://example.com''" and inp = ex_bad_input and key = "''abc.png''"]
  by (simp add: step_defs downloadLoop_3 ex_bad_input_def ex_bad_env_def ex_input_def ex_io_def ex_file_def
      fromEnv_def extractAccountId_def accountIdAt_def startsWith_def)

section \<open>Restoring and listing backups\<close>

lemma restoreSQLite_keeps_copy:
  assumes "disk m backupPath = Some b" and "disk m dbPath = Some live"
    and "backupPath \<noteq> dbPath @ ''.pre-restore''"
  shows "restoreSQLite backupPath dbPath m =
           (Inr (), m\<lparr> disk := (disk m)(dbPath @ ''.pre-restore'' \<mapsto> live, dbPath \<mapsto> b) \<rparr>,
            [CopyFile dbPath (dbPath @ ''.pre-restore''), CopyFile backupPath dbPath])"
  using assms by (simp add: restoreSQLite_def Let_def)

lemma restorePostgreSQL_leaves_disk:
  "disk (fst (snd (restorePostgreSQL backupPath conn psql m))) = disk m \<and>
   (\<forall>x y. CopyFile x y \<notin> set (snd (snd (restorePostgreSQL backupPath conn psql m))))"
  by (simp add: restorePostgreSQL_def split: sum.splits)

lemma sqlite_restore_example:
  "restoreDatabase None ''/app/backups/data.db.backup-2025-12-23-10-00-00-100Z''
     ''/app/.tmp/data.db'' ''postgres://db'' (Inr ''dump rows'') ex_machine =
   (Inr (),
    ex_machine\<lparr> disk := (disk ex_machine)(''/app/.tmp/data.db.pre-restore'' \<mapsto> ''live file'',
                   ''/app/.tmp/data.db'' \<mapsto> ''snapshot'') \<rparr>,
    [CopyFile ''/app/.tmp/data.db'' ''/app/.tmp/data.db.pre-restore'',
     CopyFile ''/app/backups/data.db.backup-2025-12-23-10-00-00-100Z'' ''/app/.tmp/data.db''])"
  by (simp add: restoreDatabase_def restoreSQLite_def ex_machine_def Let_def)

text \<open>
  C8. The claim: whatever the backend, a restore first keeps a copy of the live database.
  \<^verbatim>\<open>restoreSQLite\<close> does (the lemmas above). Evaluated with
  \<^verbatim>\<open>DATABASE_CLIENT=postgres\<close>: the dump is fed to \<^verbatim>\<open>psql\<close> and replaces the content
  of the server, no file is written, and the rows that were live are kept nowhere.
\<close>

theorem postgres_restore_makes_no_copy:
  "restoreDatabase (Some ''postgres'') ''/app/backups/backup-2025-12-23-10-00-00-100Z.sql''
     ''/app/.tmp/data.db'' ''postgres://db'' (Inr ''dump rows'') ex_machine =
   (Inr (), ex_machine\<lparr> pg_server := ''dump rows'' \<rparr>,
    [ExecPsql ''postgres://db'' ''/app/backups/backup-2025-12-23-10-00-00-100Z.sql''])"
  by (simp add: restoreDatabase_def restorePostgreSQL_def ex_machine_def)

lemma artifact_names:
  "reportName ''2025-12-23T10:00:00.400Z'' = ''backup-report-2025-12-23-10-00-00-400Z.txt''"
  "jsonBackupName ''2025-12-23T10:00:00.200Z'' = ''cloudinary-backup-2025-12-23-10-00-00-200Z.json''"
  "sqliteBackupName ''2025-12-23T10:00:00.100Z'' = ''data.db.backup-2025-12-23-10-00-00-100Z''"
  "csvBackupName ''2025-12-23T10:00:00.300Z'' = ''migration-mapping-2025-12-23-10-00-00-300Z.csv''"
  by (simp_all add: reportName_def jsonBackupName_def sqliteBackupName_def csvBackupName_def
      getTimestamp_def dashed_def)

lemma timestamp_of_artifacts:
  "timestampSearch ''backup-report-2025-12-23-10-00-00-400Z.txt'' = None"
  "timestampSearch ''cloudinary-backup-2025-12-23-10-00-00-200Z.json'' = Some ''2025-12-23-10-00-00''"
  "timestampSearch ''data.db.backup-2025-12-23-10-00-00-100Z'' = Some ''2025-12-23-10-00-00''"
  "timestampSearch ''migration-mapping-2025-12-23-10-00-00-300Z.csv'' = None"
  by (simp_all add: timestampAt_def startsWith_def isDigit_def)

text \<open>
  C9. The claim: \<^verbatim>\<open>listBackups\<close> puts every artifact of a backup (snapshot, JSON export,
  CSV mapping, report) into the group of its timestamp. Evaluated on the four files of
  one backup, in the order of the directory listing: the group holds the JSON export and
  the snapshot only. The names of the CSV mapping and of the report do not contain
  \<^verbatim>\<open>backup-\<close> followed by digits, so the regular expression does not match them.
\<close>

theorem csv_and_report_are_not_listed:
  "listBackups dateOf
     (Some [reportName ''2025-12-23T10:00:00.400Z'', jsonBackupName ''2025-12-23T10:00:00.200Z'',
            sqliteBackupName ''2025-12-23T10:00:00.100Z'', csvBackupName ''2025-12-23T10:00:00.300Z'']) =
   [\<lparr> backup_timestamp = ''2025-12-23-10-00-00'',
      backup_files = [''cloudinary-backup-2025-12-23-10-00-00-200Z.json'',
                      ''data.db.backup-2025-12-23-10-00-00-100Z''] \<rparr>]"
  by (simp add: listBackups_def groupBackups_def sortWith_def artifact_names timestamp_of_artifacts
      del: timestampSearch.simps)

end
